theory Spec2Isabelle
  imports Complex_Main "HOL-Library.AList"
begin

section \<open>Data frames\<close>

text \<open>
  The program is a pandas/numpy script (\<^verbatim>\<open>app.py\<close>). Its three helper functions
  \<^verbatim>\<open>load_data\<close>, \<^verbatim>\<open>add_oee_metrics\<close> and \<^verbatim>\<open>aggregate_oee\<close> and the KPI block of
  \<^verbatim>\<open>main\<close> are embedded here over an explicit model of the data frame.

  \<^item> A float64 cell is a \<open>real option\<close>: \<open>None\<close> is NaN, \<open>Some x\<close> is the number \<open>x\<close>.
    Arithmetic is exact: rounding, overflow and the infinities of IEEE 754 are not
    modelled. A division by zero, which numpy answers with an infinity or NaN, is
    \<open>None\<close>; the program performs every division under an \<^verbatim>\<open>np.where\<close> that
    discards the quotient unless the divisor is positive.
  \<^item> A column is either a float64 column or a column of text objects (missing: \<open>None\<close>).
    A text column where the program computes with numbers is \<open>TypeError\<close>, as in
    pandas for arithmetic, a comparison with a number or a mean. (pandas sums strings
    by concatenation and fails only when the sum is used as a number, which the
    program does with every sum except that of \<^verbatim>\<open>Reject per unit\<close>; the model reports
    \<open>TypeError\<close> for that sum too. The properties below are about frames whose
    metric columns are float64.)
  \<^item> A data frame is its number of rows and its columns in order, by label;
    \<^verbatim>\<open>df[c]\<close> on a missing label is \<open>KeyError\<close>, and \<^verbatim>\<open>df[c] = v\<close> replaces the
    column in place or appends it.
\<close>

type_synonym float64 = "real option"

datatype column = FloatCol "float64 list" | TextCol "string option list"

record dataframe =
  nrows :: nat
  columns :: "(string \<times> column) list"

datatype error = KeyError | TypeError | ValueError | ZeroDivisionError

definition and_then :: "error + 'a \<Rightarrow> ('a \<Rightarrow> error + 'b) \<Rightarrow> error + 'b" where
  "and_then m f = (case m of Inl e \<Rightarrow> Inl e | Inr x \<Rightarrow> f x)"

definition getitem :: "dataframe \<Rightarrow> string \<Rightarrow> error + column" where
  "getitem df c = (case map_of (columns df) c of None \<Rightarrow> Inl KeyError | Some col \<Rightarrow> Inr col)"

definition setitem :: "dataframe \<Rightarrow> string \<Rightarrow> column \<Rightarrow> dataframe" where
  "setitem df c col = df\<lparr>columns := AList.update c col (columns df)\<rparr>"

fun col_len :: "column \<Rightarrow> nat" where
  "col_len (FloatCol xs) = length xs"
| "col_len (TextCol ss) = length ss"

text \<open>In a frame of pandas every column has one cell for each row.\<close>

definition wf_frame :: "dataframe \<Rightarrow> bool" where
  "wf_frame df = list_all (\<lambda>(c, col). col_len col = nrows df) (columns df)"

subsection \<open>Cell arithmetic (NaN propagates)\<close>

fun fmul :: "float64 \<Rightarrow> float64 \<Rightarrow> float64" where
  "fmul (Some x) (Some y) = Some (x * y)"
| "fmul _ _ = None"

fun fsub :: "float64 \<Rightarrow> float64 \<Rightarrow> float64" where
  "fsub (Some x) (Some y) = Some (x - y)"
| "fsub _ _ = None"

fun fdiv :: "float64 \<Rightarrow> float64 \<Rightarrow> float64" where
  "fdiv (Some x) (Some y) = (if y = 0 then None else Some (x / y))"
| "fdiv _ _ = None"

fun gt0 :: "float64 \<Rightarrow> bool" where
  "gt0 (Some x) = (0 < x)"
| "gt0 None = False"

fun fclip :: "real \<Rightarrow> real \<Rightarrow> float64 \<Rightarrow> float64" where
  "fclip lo hi (Some x) = Some (min (max x lo) hi)"
| "fclip lo hi None = None"

subsection \<open>Column operations\<close>

fun col_sub :: "column \<Rightarrow> column \<Rightarrow> error + column" where
  "col_sub (FloatCol xs) (FloatCol ys) = Inr (FloatCol (map2 fsub xs ys))"
| "col_sub _ _ = Inl TypeError"

fun col_div :: "column \<Rightarrow> column \<Rightarrow> error + column" where
  "col_div (FloatCol xs) (FloatCol ys) = Inr (FloatCol (map2 fdiv xs ys))"
| "col_div _ _ = Inl TypeError"

fun col_mul :: "column \<Rightarrow> column \<Rightarrow> error + column" where
  "col_mul (FloatCol xs) (FloatCol ys) = Inr (FloatCol (map2 fmul xs ys))"
| "col_mul _ _ = Inl TypeError"

fun col_mul_scalar :: "column \<Rightarrow> real \<Rightarrow> error + column" where
  "col_mul_scalar (FloatCol xs) h = Inr (FloatCol (map (\<lambda>x. fmul x (Some h)) xs))"
| "col_mul_scalar (TextCol _) h = Inl TypeError"

fun scalar_sub :: "real \<Rightarrow> column \<Rightarrow> error + column" where
  "scalar_sub a (FloatCol xs) = Inr (FloatCol (map (fsub (Some a)) xs))"
| "scalar_sub a (TextCol _) = Inl TypeError"

fun col_gt0 :: "column \<Rightarrow> error + bool list" where
  "col_gt0 (FloatCol xs) = Inr (map gt0 xs)"
| "col_gt0 (TextCol _) = Inl TypeError"

fun col_clip :: "column \<Rightarrow> real \<Rightarrow> real \<Rightarrow> error + column" where
  "col_clip (FloatCol xs) lo hi = Inr (FloatCol (map (fclip lo hi) xs))"
| "col_clip (TextCol _) lo hi = Inl TypeError"

text \<open>\<^verbatim>\<open>np.where(cond, col, np.nan)\<close>: the cell of \<open>col\<close> where \<open>cond\<close> holds, NaN elsewhere.\<close>

fun np_where_nan :: "bool list \<Rightarrow> column \<Rightarrow> column" where
  "np_where_nan cond (FloatCol xs) = FloatCol (map2 (\<lambda>c x. if c then x else None) cond xs)"
| "np_where_nan cond (TextCol ss) = TextCol (map2 (\<lambda>c s. if c then s else None) cond ss)"

section \<open>load_data\<close>

text \<open>
  Lines 28 to 50 of \<^verbatim>\<open>load_data\<close>: the derived columns. The argument is the frame
  \<^verbatim>\<open>df\<close> as it stands at line 27, after \<^verbatim>\<open>pd.read_excel\<close> and the normalisation of
  the header and of the \<^verbatim>\<open>Date\<close>, \<^verbatim>\<open>Machine\<close> and \<^verbatim>\<open>Product\<close> columns (library input
  and text parsing, which are not modelled). The frame is fresh, so the in-place
  assignments are modelled by passing it along.
\<close>

definition load_data :: "dataframe \<Rightarrow> error + dataframe" where
  "load_data df0 =
     and_then (getitem df0 ''Production per unit'') (\<lambda>prod.
     and_then (getitem df0 ''Reject per unit'') (\<lambda>rej.
     and_then (col_sub prod rej) (\<lambda>good.
     let df1 = setitem df0 ''Good units'' good in
     and_then (getitem df1 ''Production per unit'') (\<lambda>prod1.
     and_then (col_gt0 prod1) (\<lambda>cond.
     and_then (getitem df1 ''Good units'') (\<lambda>good1.
     and_then (getitem df1 ''Production per unit'') (\<lambda>prod2.
     and_then (col_div good1 prod2) (\<lambda>ratio.
     let df2 = setitem df1 ''Quality'' (np_where_nan cond ratio) in
     and_then (getitem df2 ''Performance %'') (\<lambda>perf.
     let df3 = setitem df2 ''Performance'' perf in
     and_then (getitem df3 ''Working days'') (\<lambda>days.
     Inr (setitem df3 ''Planned days'' days)))))))))))"

section \<open>add_oee_metrics\<close>

text \<open>
  \<^verbatim>\<open>add_oee_metrics\<close> receives a reference to a frame, copies the frame and assigns
  columns of the copy in place. The store maps addresses to frames; \<open>next_addr\<close>
  is the first address not yet allocated.
\<close>

record store =
  frames :: "nat \<Rightarrow> dataframe"
  next_addr :: nat

definition copy :: "store \<Rightarrow> nat \<Rightarrow> store \<times> nat" where
  "copy s a = (s\<lparr>frames := (frames s)(next_addr s := frames s a), next_addr := Suc (next_addr s)\<rparr>,
               next_addr s)"

definition setitem_at :: "store \<Rightarrow> nat \<Rightarrow> string \<Rightarrow> column \<Rightarrow> store" where
  "setitem_at s a c col = s\<lparr>frames := (frames s)(a := setitem (frames s a) c col)\<rparr>"

definition getitem_at :: "store \<Rightarrow> nat \<Rightarrow> string \<Rightarrow> error + column" where
  "getitem_at s a c = getitem (frames s a) c"

definition add_oee_metrics :: "store \<Rightarrow> nat \<Rightarrow> real \<Rightarrow> error + (store \<times> nat)" where
  "add_oee_metrics s0 df_in hours_per_day =
     (case copy s0 df_in of (s1, df) \<Rightarrow>
     and_then (getitem_at s1 df ''Planned days'') (\<lambda>days.
     and_then (col_mul_scalar days hours_per_day) (\<lambda>planned.
     let s2 = setitem_at s1 df ''Planned hours'' planned in
     and_then (getitem_at s2 df ''Planned hours'') (\<lambda>ph.
     and_then (col_gt0 ph) (\<lambda>cond.
     and_then (getitem_at s2 df ''downtime'') (\<lambda>down.
     and_then (getitem_at s2 df ''Planned hours'') (\<lambda>ph2.
     and_then (col_div down ph2) (\<lambda>lost.
     and_then (scalar_sub 1 lost) (\<lambda>avail.
     let s3 = setitem_at s2 df ''Availability'' (np_where_nan cond avail) in
     and_then (getitem_at s3 df ''Availability'') (\<lambda>a.
     and_then (col_clip a 0 1) (\<lambda>clipped.
     let s4 = setitem_at s3 df ''Availability'' clipped in
     and_then (getitem_at s4 df ''Availability'') (\<lambda>a1.
     and_then (getitem_at s4 df ''Performance'') (\<lambda>p.
     and_then (col_mul a1 p) (\<lambda>ap.
     and_then (getitem_at s4 df ''Quality'') (\<lambda>q.
     and_then (col_mul ap q) (\<lambda>oee.
     Inr (setitem_at s4 df ''OEE'' oee, df)))))))))))))))))"

section \<open>Grouping and aggregation\<close>

text \<open>
  pandas' \<^verbatim>\<open>sum\<close> and \<^verbatim>\<open>mean\<close> skip NaN: the sum of no number is 0, the mean of
  no number is NaN.
\<close>

fun present :: "'a option list \<Rightarrow> 'a list" where
  "present [] = []"
| "present (None # xs) = present xs"
| "present (Some x # xs) = x # present xs"

definition nansum :: "float64 list \<Rightarrow> real" where
  "nansum xs = sum_list (present xs)"

definition nanmean :: "float64 list \<Rightarrow> float64" where
  "nanmean xs = (if present xs = [] then None
                 else Some (sum_list (present xs) / real (length (present xs))))"

text \<open>A group label is a tuple of cells that are not missing, one for each key.\<close>

datatype cell = S string | F real

fun cells :: "column \<Rightarrow> cell option list" where
  "cells (FloatCol xs) = map (map_option F) xs"
| "cells (TextCol ss) = map (map_option S) ss"

fun row_cells :: "nat \<Rightarrow> cell option list list \<Rightarrow> cell option list list" where
  "row_cells n [] = replicate n []"
| "row_cells n (c # cs) = map2 (#) c (row_cells n cs)"

text \<open>
  \<^verbatim>\<open>groupby\<close> sorts the labels (\<^verbatim>\<open>sort=True\<close>): strings by code point, numbers by
  value, tuples lexicographically. A key column holds cells of one kind, so the
  order between a string and a number is never consulted.
\<close>

fun str_less :: "string \<Rightarrow> string \<Rightarrow> bool" where
  "str_less [] [] = False"
| "str_less [] (b # bs) = True"
| "str_less (a # as) [] = False"
| "str_less (a # as) (b # bs) = ((of_char a :: nat) < of_char b \<or> (a = b \<and> str_less as bs))"

fun cell_less :: "cell \<Rightarrow> cell \<Rightarrow> bool" where
  "cell_less (S a) (S b) = str_less a b"
| "cell_less (F x) (F y) = (x < y)"
| "cell_less (F x) (S b) = True"
| "cell_less (S a) (F y) = False"

fun label_less :: "cell list \<Rightarrow> cell list \<Rightarrow> bool" where
  "label_less [] [] = False"
| "label_less [] (b # bs) = True"
| "label_less (a # as) [] = False"
| "label_less (a # as) (b # bs) = (cell_less a b \<or> (a = b \<and> label_less as bs))"

fun insert_label :: "cell list \<Rightarrow> cell list list \<Rightarrow> cell list list" where
  "insert_label g [] = [g]"
| "insert_label g (h # hs) = (if label_less h g then h # insert_label g hs else g # h # hs)"

definition sort_labels :: "cell list list \<Rightarrow> cell list list" where
  "sort_labels gs = foldr insert_label gs []"

text \<open>
  The label of each row, \<open>None\<close> for a row that has a missing key cell: \<^verbatim>\<open>groupby\<close>
  drops such rows (\<^verbatim>\<open>dropna=True\<close>).
\<close>

definition row_labels :: "nat \<Rightarrow> column list \<Rightarrow> cell list option list" where
  "row_labels n key_cols = map those (row_cells n (map cells key_cols))"

definition group_labels :: "cell list option list \<Rightarrow> cell list list" where
  "group_labels ks = sort_labels (remdups (present ks))"

definition group_values :: "cell list option list \<Rightarrow> 'a list \<Rightarrow> cell list \<Rightarrow> 'a list" where
  "group_values ks xs g = map snd (filter (\<lambda>(k, x). k = Some g) (zip ks xs))"

definition names :: "dataframe \<Rightarrow> string list" where
  "names df = map fst (columns df)"

text \<open>The column under a label that is known to be present.\<close>

definition the_col :: "dataframe \<Rightarrow> string \<Rightarrow> column" where
  "the_col df c = (case map_of (columns df) c of Some col \<Rightarrow> col | None \<Rightarrow> TextCol [])"

text \<open>
  \<^verbatim>\<open>df.groupby(keys)\<close> for a list of labels: the key columns, each with the name of
  its index level. A key that is not a column is \<open>KeyError\<close>; no key at all is
  \<open>ValueError\<close> (on a frame without rows pandas fails only later, at the merge without
  keys; the model reports the error here). One more case is pandas' own: a list
  exactly as long as the frame that has an entry which is not a column is read as an
  array of group labels, one for each row, and the level has no name (the branch
  \<^emph>\<open>is this an index replacement?\<close> of \<^verbatim>\<open>get_grouper\<close>).
\<close>

definition groupby :: "dataframe \<Rightarrow> string list \<Rightarrow> error + (string option \<times> column) list" where
  "groupby df keys =
     (if length keys = nrows df \<and> \<not> list_all (\<lambda>k. k \<in> set (names df)) keys
      then Inr [(None, TextCol (map Some keys))]
      else if keys = [] then Inl ValueError
      else if \<not> list_all (\<lambda>k. k \<in> set (names df)) keys then Inl KeyError
      else Inr (map (\<lambda>k. (Some k, the_col df k)) keys))"

datatype aggfunc = Sum | Mean

fun aggregate_col :: "aggfunc \<Rightarrow> cell list option list \<Rightarrow> cell list list \<Rightarrow> column
                      \<Rightarrow> error + column" where
  "aggregate_col Sum ks gs (FloatCol xs) =
     Inr (FloatCol (map (\<lambda>g. Some (nansum (group_values ks xs g))) gs))"
| "aggregate_col Mean ks gs (FloatCol xs) =
     Inr (FloatCol (map (\<lambda>g. nanmean (group_values ks xs g)) gs))"
| "aggregate_col f ks gs (TextCol ss) = Inl TypeError"

fun aggregate_cols :: "dataframe \<Rightarrow> cell list option list \<Rightarrow> cell list list
                       \<Rightarrow> (string \<times> string \<times> aggfunc) list
                       \<Rightarrow> error + (string \<times> column) list" where
  "aggregate_cols df ks gs [] = Inr []"
| "aggregate_cols df ks gs ((out, src, f) # specs) =
     and_then (getitem df src) (\<lambda>col.
     and_then (aggregate_col f ks gs col) (\<lambda>res.
     and_then (aggregate_cols df ks gs specs) (\<lambda>rest.
     Inr ((out, res) # rest))))"

text \<open>
  The column of an index level: the cells of the labels at one position, in the
  kind of the key column they come from.
\<close>

definition cell_at :: "cell list \<Rightarrow> nat \<Rightarrow> cell option" where
  "cell_at g l = (case drop l g of [] \<Rightarrow> None | c # _ \<Rightarrow> Some c)"

fun level_col :: "column \<Rightarrow> cell list list \<Rightarrow> nat \<Rightarrow> column" where
  "level_col (FloatCol _) gs l =
     FloatCol (map (\<lambda>g. case cell_at g l of Some (F x) \<Rightarrow> Some x | _ \<Rightarrow> None) gs)"
| "level_col (TextCol _) gs l =
     TextCol (map (\<lambda>g. case cell_at g l of Some (S s) \<Rightarrow> Some s | _ \<Rightarrow> None) gs)"

text \<open>
  A frame with an index of labels, as \<^verbatim>\<open>groupby(...).agg(...)\<close> returns it: the
  levels of the index (name and column) and the data.
\<close>

record indexed_frame =
  levels :: "(string option \<times> column) list"
  data :: dataframe

text \<open>
  \<^verbatim>\<open>df.groupby(keys).agg(out=(src, f), ...)\<close>. pandas checks that every source
  column exists before it aggregates any.
\<close>

definition groupby_agg :: "dataframe \<Rightarrow> string list \<Rightarrow> (string \<times> string \<times> aggfunc) list
                           \<Rightarrow> error + indexed_frame" where
  "groupby_agg df keys specs =
     and_then (groupby df keys) (\<lambda>key_cols.
     let ks = row_labels (nrows df) (map snd key_cols);
         gs = group_labels ks
     in if \<not> list_all (\<lambda>(out, src, f). src \<in> set (names df)) specs then Inl KeyError
        else and_then (aggregate_cols df ks gs specs) (\<lambda>cols.
             Inr \<lparr>levels = map (\<lambda>((n, col), l). (n, level_col col gs l))
                                (zip key_cols [0 ..< length key_cols]),
                  data = \<lparr>nrows = length gs, columns = cols\<rparr>\<rparr>))"

text \<open>
  \<^verbatim>\<open>reset_index()\<close> inserts the levels in front of the columns, the last level
  first; a label that is already a column is \<open>ValueError\<close>. A level without a name
  (there is then only one) is called \<^verbatim>\<open>index\<close>, or \<^verbatim>\<open>level_0\<close> when \<^verbatim>\<open>index\<close> is taken.
\<close>

fun insert_levels :: "(string option \<times> column) list \<Rightarrow> (string \<times> column) list
                      \<Rightarrow> error + (string \<times> column) list" where
  "insert_levels [] cols = Inr cols"
| "insert_levels ((n, c) # ls) cols =
     and_then (insert_levels ls cols) (\<lambda>cols'.
     let name = (case n of Some k \<Rightarrow> k
                 | None \<Rightarrow> if ''index'' \<in> fst ` set cols' then ''level_0'' else ''index'')
     in if name \<in> fst ` set cols' then Inl ValueError else Inr ((name, c) # cols'))"

definition reset_index :: "indexed_frame \<Rightarrow> error + dataframe" where
  "reset_index fr =
     and_then (insert_levels (levels fr) (columns (data fr))) (\<lambda>cols.
     Inr ((data fr)\<lparr>columns := cols\<rparr>))"

section \<open>merge\<close>

text \<open>
  \<^verbatim>\<open>left.merge(right, on=keys, how='left')\<close>, called with at least one key. A key
  that is not a column of both frames is \<open>KeyError\<close>. Every row of \<open>left\<close>, in order,
  is paired with each row of \<open>right\<close> that has the same key cells (missing cells
  match each other), or with no row when there is none. The result has the columns
  of \<open>left\<close>, then the columns of \<open>right\<close> that are not keys; a label on both sides
  gets the suffixes \<^verbatim>\<open>_x\<close> and \<^verbatim>\<open>_y\<close>.
\<close>

definition on_cells :: "dataframe \<Rightarrow> string list \<Rightarrow> cell option list list" where
  "on_cells df on =
     row_cells (nrows df) (map (\<lambda>k. cells (the_col df k)) on)"

definition matches :: "'k list \<Rightarrow> 'k \<Rightarrow> nat list" where
  "matches rkeys k = map fst (filter (\<lambda>(j, k'). k' = k) (enumerate 0 rkeys))"

definition join_rows :: "'k list \<Rightarrow> 'k list \<Rightarrow> (nat \<times> nat option) list" where
  "join_rows lkeys rkeys =
     concat (map (\<lambda>(i, k). case matches rkeys k of
                              [] \<Rightarrow> [(i, None)]
                            | js \<Rightarrow> map (\<lambda>j. (i, Some j)) js)
                 (enumerate 0 lkeys))"

definition pick :: "'a option list \<Rightarrow> nat option \<Rightarrow> 'a option" where
  "pick xs r = (case r of None \<Rightarrow> None | Some i \<Rightarrow> if i < length xs then xs ! i else None)"

fun take_rows :: "column \<Rightarrow> nat option list \<Rightarrow> column" where
  "take_rows (FloatCol xs) rs = FloatCol (map (pick xs) rs)"
| "take_rows (TextCol ss) rs = TextCol (map (pick ss) rs)"

definition merge_left :: "dataframe \<Rightarrow> dataframe \<Rightarrow> string list \<Rightarrow> error + dataframe" where
  "merge_left left right on =
     (if \<not> list_all (\<lambda>k. k \<in> set (names right) \<and> k \<in> set (names left)) on then Inl KeyError
      else
        let pairs = join_rows (on_cells left on) (on_cells right on);
            rest = filter (\<lambda>(c, col). c \<notin> set on) (columns right)
        in Inr \<lparr>nrows = length pairs,
                columns =
                  map (\<lambda>(c, col).
                         (if c \<notin> set on \<and> c \<in> fst ` set rest then c @ ''_x'' else c,
                          take_rows col (map (Some \<circ> fst) pairs)))
                      (columns left) @
                  map (\<lambda>(c, col).
                         (if c \<in> set (names left) then c @ ''_y'' else c,
                          take_rows col (map snd pairs)))
                      rest\<rparr>)"

section \<open>aggregate_oee\<close>

definition aggregate_oee :: "dataframe \<Rightarrow> string list \<Rightarrow> error + dataframe" where
  "aggregate_oee df group_cols =
     and_then (groupby_agg df group_cols
                 [(''Production_units'', ''Production per unit'', Sum),
                  (''Good_units'', ''Good units'', Sum),
                  (''Reject_units'', ''Reject per unit'', Sum),
                  (''Downtime'', ''downtime'', Sum),
                  (''Planned_hours'', ''Planned hours'', Sum)]) (\<lambda>grouped.
     and_then (reset_index grouped) (\<lambda>agg0.
     and_then (getitem agg0 ''Production_units'') (\<lambda>prod.
     and_then (col_gt0 prod) (\<lambda>cond_q.
     and_then (getitem agg0 ''Good_units'') (\<lambda>good.
     and_then (getitem agg0 ''Production_units'') (\<lambda>prod1.
     and_then (col_div good prod1) (\<lambda>ratio.
     let agg1 = setitem agg0 ''Quality'' (np_where_nan cond_q ratio) in
     and_then (getitem agg1 ''Planned_hours'') (\<lambda>ph.
     and_then (col_gt0 ph) (\<lambda>cond_a.
     and_then (getitem agg1 ''Downtime'') (\<lambda>down.
     and_then (getitem agg1 ''Planned_hours'') (\<lambda>ph1.
     and_then (col_div down ph1) (\<lambda>lost.
     and_then (scalar_sub 1 lost) (\<lambda>avail.
     let agg2 = setitem agg1 ''Availability'' (np_where_nan cond_a avail) in
     and_then (getitem agg2 ''Availability'') (\<lambda>a.
     and_then (col_clip a 0 1) (\<lambda>clipped.
     let agg3 = setitem agg2 ''Availability'' clipped in
     and_then (groupby_agg df group_cols [(''Performance'', ''Performance'', Mean)]) (\<lambda>grouped_p.
     and_then (reset_index grouped_p) (\<lambda>tmp.
     and_then (merge_left agg3 tmp group_cols) (\<lambda>agg4.
     and_then (getitem agg4 ''Availability'') (\<lambda>a1.
     and_then (getitem agg4 ''Performance'') (\<lambda>p.
     and_then (col_mul a1 p) (\<lambda>ap.
     and_then (getitem agg4 ''Quality'') (\<lambda>q.
     and_then (col_mul ap q) (\<lambda>oee.
     Inr (setitem agg4 ''OEE'' oee))))))))))))))))))))))))"

section \<open>The top-level KPIs of main\<close>

text \<open>
  Lines 238 to 263 of \<^verbatim>\<open>main\<close>, as a function of the filtered frame \<^verbatim>\<open>df\<close>.
  \<^verbatim>\<open>Series.sum()\<close> skips NaN; \<^verbatim>\<open>np.average\<close> does not, and raises
  \<open>ZeroDivisionError\<close> when the weights sum to zero.
\<close>

fun series_sum :: "column \<Rightarrow> error + real" where
  "series_sum (FloatCol xs) = Inr (nansum xs)"
| "series_sum (TextCol _) = Inl TypeError"

definition np_sum :: "float64 list \<Rightarrow> float64" where
  "np_sum xs = (if None \<in> set xs then None else Some (sum_list (present xs)))"

fun np_average :: "column \<Rightarrow> column \<Rightarrow> error + float64" where
  "np_average (FloatCol a) (FloatCol w) =
     (if length a \<noteq> length w then Inl TypeError
      else case np_sum w of
             None \<Rightarrow> Inr None
           | Some scl \<Rightarrow> if scl = 0 then Inl ZeroDivisionError
                         else Inr (fdiv (np_sum (map2 fmul a w)) (Some scl)))"
| "np_average _ _ = Inl TypeError"

record kpis =
  total_prod :: real
  total_good :: real
  total_reject :: real
  total_downtime :: real
  overall_quality :: float64
  total_planned_hours :: real
  overall_availability :: float64
  overall_performance :: float64
  overall_oee :: float64

definition main_kpis :: "dataframe \<Rightarrow> error + kpis" where
  "main_kpis df =
     and_then (and_then (getitem df ''Production per unit'') series_sum) (\<lambda>total_prod.
     and_then (and_then (getitem df ''Good units'') series_sum) (\<lambda>total_good.
     and_then (and_then (getitem df ''Reject per unit'') series_sum) (\<lambda>total_reject.
     and_then (and_then (getitem df ''downtime'') series_sum) (\<lambda>total_downtime.
     let overall_quality = (if total_prod > 0 then Some (total_good / total_prod) else None) in
     and_then (and_then (getitem df ''Planned hours'') series_sum) (\<lambda>total_planned_hours.
     let overall_availability0 =
           (if total_planned_hours > 0 then Some (1 - total_downtime / total_planned_hours)
            else None);
         overall_availability = fclip 0 1 overall_availability0
     in
     and_then (if total_prod > 0
               then and_then (getitem df ''Performance'') (\<lambda>perf.
                    and_then (getitem df ''Production per unit'') (\<lambda>weights.
                    np_average perf weights))
               else Inr None) (\<lambda>overall_performance.
     Inr \<lparr>total_prod = total_prod, total_good = total_good, total_reject = total_reject,
          total_downtime = total_downtime, overall_quality = overall_quality,
          total_planned_hours = total_planned_hours,
          overall_availability = overall_availability,
          overall_performance = overall_performance,
          overall_oee = fmul (fmul overall_availability overall_performance)
                             overall_quality\<rparr>))))))"

section \<open>Vocabulary of the properties\<close>

text \<open>
  The columns that the program derives, as functions of the columns they are
  computed from. The lemmas below show that the program computes exactly these.
\<close>

definition quality_of :: "float64 list \<Rightarrow> float64 list \<Rightarrow> float64 list" where
  "quality_of good prods =
     map2 (\<lambda>c x. if c then x else None) (map gt0 prods) (map2 fdiv good prods)"

definition planned_hours_of :: "float64 list \<Rightarrow> real \<Rightarrow> float64 list" where
  "planned_hours_of days h = map (\<lambda>x. fmul x (Some h)) days"

definition availability_of :: "float64 list \<Rightarrow> float64 list \<Rightarrow> float64 list" where
  "availability_of down ph =
     map (fclip 0 1) (map2 (\<lambda>c x. if c then x else None) (map gt0 ph)
                           (map (fsub (Some 1)) (map2 fdiv down ph)))"

definition oee_of :: "float64 list \<Rightarrow> float64 list \<Rightarrow> float64 list \<Rightarrow> float64 list" where
  "oee_of a p q = map2 fmul (map2 fmul a p) q"

definition with_metrics :: "dataframe \<Rightarrow> float64 list \<Rightarrow> float64 list \<Rightarrow> float64 list
                            \<Rightarrow> float64 list \<Rightarrow> real \<Rightarrow> dataframe" where
  "with_metrics df days down perf qual h =
     setitem (setitem (setitem df
        ''Planned hours'' (FloatCol (planned_hours_of days h)))
        ''Availability'' (FloatCol (availability_of down (planned_hours_of days h))))
        ''OEE'' (FloatCol (oee_of (availability_of down (planned_hours_of days h)) perf qual))"

text \<open>The cells of a float64 column of a frame.\<close>

definition is_float :: "dataframe \<Rightarrow> string \<Rightarrow> bool" where
  "is_float df c = (case map_of (columns df) c of Some (FloatCol xs) \<Rightarrow> True | _ \<Rightarrow> False)"

definition floats :: "dataframe \<Rightarrow> string \<Rightarrow> float64 list" where
  "floats df c = (case map_of (columns df) c of Some (FloatCol xs) \<Rightarrow> xs | _ \<Rightarrow> [])"

text \<open>
  The frames and keys on which \<^verbatim>\<open>aggregate_oee\<close> returns one row for each group:
  the keys are columns of the frame, pairwise different, and none of them is a label
  that the result uses for a column of its own; the six columns that are aggregated
  hold float64.
\<close>

definition reserved_labels :: "string list" where
  "reserved_labels = [''Production_units'', ''Good_units'', ''Reject_units'', ''Downtime'',
                      ''Planned_hours'', ''Quality'', ''Availability'', ''Performance'',
                      ''OEE'']"

definition aggregable :: "dataframe \<Rightarrow> string list \<Rightarrow> bool" where
  "aggregable df group_cols =
     (group_cols \<noteq> [] \<and> distinct group_cols \<and>
      list_all (\<lambda>k. k \<in> set (names df) \<and> k \<notin> set reserved_labels) group_cols \<and>
      list_all (is_float df) [''Production per unit'', ''Good units'', ''Reject per unit'',
                              ''downtime'', ''Planned hours'', ''Performance''])"

text \<open>
  The label of each record, the labels of the groups in the order of the result,
  and the cells that the records of one group have in a column.
\<close>

definition labels_of :: "dataframe \<Rightarrow> string list \<Rightarrow> cell list option list" where
  "labels_of df group_cols = row_labels (nrows df) (map (the_col df) group_cols)"

definition groups_of :: "dataframe \<Rightarrow> string list \<Rightarrow> cell list list" where
  "groups_of df group_cols = group_labels (labels_of df group_cols)"

definition members :: "dataframe \<Rightarrow> string list \<Rightarrow> string \<Rightarrow> cell list \<Rightarrow> float64 list" where
  "members df group_cols c g = group_values (labels_of df group_cols) (floats df c) g"

definition group_sums :: "dataframe \<Rightarrow> string list \<Rightarrow> string \<Rightarrow> float64 list" where
  "group_sums df group_cols c =
     map (\<lambda>g. Some (nansum (members df group_cols c g))) (groups_of df group_cols)"

definition group_means :: "dataframe \<Rightarrow> string list \<Rightarrow> string \<Rightarrow> float64 list" where
  "group_means df group_cols c =
     map (\<lambda>g. nanmean (members df group_cols c g)) (groups_of df group_cols)"

definition key_columns :: "dataframe \<Rightarrow> string list \<Rightarrow> (string \<times> column) list" where
  "key_columns df group_cols =
     map (\<lambda>(k, l). (k, level_col (the_col df k) (groups_of df group_cols) l))
         (zip group_cols [0 ..< length group_cols])"

definition grouped_frame :: "dataframe \<Rightarrow> string list \<Rightarrow> dataframe" where
  "grouped_frame df group_cols =
     (let prods = group_sums df group_cols ''Production per unit'';
          good = group_sums df group_cols ''Good units'';
          down = group_sums df group_cols ''downtime'';
          hours = group_sums df group_cols ''Planned hours'';
          perf = group_means df group_cols ''Performance''
      in \<lparr>nrows = length (groups_of df group_cols),
          columns = key_columns df group_cols @
            [(''Production_units'', FloatCol prods),
             (''Good_units'', FloatCol good),
             (''Reject_units'', FloatCol (group_sums df group_cols ''Reject per unit'')),
             (''Downtime'', FloatCol down),
             (''Planned_hours'', FloatCol hours),
             (''Quality'', FloatCol (quality_of good prods)),
             (''Availability'', FloatCol (availability_of down hours)),
             (''Performance'', FloatCol perf),
             (''OEE'', FloatCol (oee_of (availability_of down hours) perf
                                        (quality_of good prods)))]\<rparr>)"

text \<open>A label cell is of the kind of the key column it is read from.\<close>

fun same_kind :: "column \<Rightarrow> cell \<Rightarrow> bool" where
  "same_kind (FloatCol _) (F _) = True"
| "same_kind (TextCol _) (S _) = True"
| "same_kind _ _ = False"

text \<open>
  The production-weighted mean of the performance ratios of one group, which is
  what the KPI block of \<^verbatim>\<open>main\<close> computes for the whole frame.
\<close>

definition weighted_mean :: "float64 list \<Rightarrow> float64 list \<Rightarrow> float64" where
  "weighted_mean xs ws = fdiv (np_sum (map2 fmul xs ws)) (np_sum ws)"

section \<open>Example frames\<close>

text \<open>Scenario A of the specification: two records of machine \<^verbatim>\<open>M1\<close>, as read from the
  file, after \<^verbatim>\<open>load_data\<close>, and after \<^verbatim>\<open>add_oee_metrics\<close> with 24 hours per day.\<close>

definition scenario_A_raw :: dataframe where
  "scenario_A_raw = \<lparr>nrows = 2, columns =
    [(''Machine'', TextCol [Some ''M1'', Some ''M1'']),
     (''Production per unit'', FloatCol [Some 100, Some 50]),
     (''Reject per unit'', FloatCol [Some 10, Some 0]),
     (''Performance %'', FloatCol [Some (9 / 10), Some (8 / 10)]),
     (''Working days'', FloatCol [Some 1, Some 1]),
     (''downtime'', FloatCol [Some 2, Some 1])]\<rparr>"

definition scenario_A_loaded :: dataframe where
  "scenario_A_loaded = \<lparr>nrows = 2, columns =
    [(''Machine'', TextCol [Some ''M1'', Some ''M1'']),
     (''Production per unit'', FloatCol [Some 100, Some 50]),
     (''Reject per unit'', FloatCol [Some 10, Some 0]),
     (''Performance %'', FloatCol [Some (9 / 10), Some (8 / 10)]),
     (''Working days'', FloatCol [Some 1, Some 1]),
     (''downtime'', FloatCol [Some 2, Some 1]),
     (''Good units'', FloatCol [Some 90, Some 50]),
     (''Quality'', FloatCol [Some (9 / 10), Some 1]),
     (''Performance'', FloatCol [Some (9 / 10), Some (8 / 10)]),
     (''Planned days'', FloatCol [Some 1, Some 1])]\<rparr>"

definition scenario_A :: dataframe where
  "scenario_A = \<lparr>nrows = 2, columns =
    [(''Machine'', TextCol [Some ''M1'', Some ''M1'']),
     (''Production per unit'', FloatCol [Some 100, Some 50]),
     (''Reject per unit'', FloatCol [Some 10, Some 0]),
     (''Performance %'', FloatCol [Some (9 / 10), Some (8 / 10)]),
     (''Working days'', FloatCol [Some 1, Some 1]),
     (''downtime'', FloatCol [Some 2, Some 1]),
     (''Good units'', FloatCol [Some 90, Some 50]),
     (''Quality'', FloatCol [Some (9 / 10), Some 1]),
     (''Performance'', FloatCol [Some (9 / 10), Some (8 / 10)]),
     (''Planned days'', FloatCol [Some 1, Some 1]),
     (''Planned hours'', FloatCol [Some 24, Some 24]),
     (''Availability'', FloatCol [Some (11 / 12), Some (23 / 24)]),
     (''OEE'', FloatCol [Some (297 / 400), Some (23 / 30)])]\<rparr>"

text \<open>Two records of machine \<^verbatim>\<open>M1\<close> without production, one of them with more downtime
  than planned hours, and one record of machine \<^verbatim>\<open>M2\<close> with a negative downtime.\<close>

definition scenario_B_raw :: dataframe where
  "scenario_B_raw = \<lparr>nrows = 3, columns =
    [(''Machine'', TextCol [Some ''M1'', Some ''M1'', Some ''M2'']),
     (''Production per unit'', FloatCol [Some 0, Some 0, Some 10]),
     (''Reject per unit'', FloatCol [Some 0, Some 0, Some 1]),
     (''Performance %'', FloatCol [Some (1 / 2), Some (7 / 10), Some (9 / 10)]),
     (''Working days'', FloatCol [Some 1, Some 1, Some 1]),
     (''downtime'', FloatCol [Some 0, Some 60, Some (- 6)])]\<rparr>"

definition scenario_B_loaded :: dataframe where
  "scenario_B_loaded = \<lparr>nrows = 3, columns =
    [(''Machine'', TextCol [Some ''M1'', Some ''M1'', Some ''M2'']),
     (''Production per unit'', FloatCol [Some 0, Some 0, Some 10]),
     (''Reject per unit'', FloatCol [Some 0, Some 0, Some 1]),
     (''Performance %'', FloatCol [Some (1 / 2), Some (7 / 10), Some (9 / 10)]),
     (''Working days'', FloatCol [Some 1, Some 1, Some 1]),
     (''downtime'', FloatCol [Some 0, Some 60, Some (- 6)]),
     (''Good units'', FloatCol [Some 0, Some 0, Some 9]),
     (''Quality'', FloatCol [None, None, Some (9 / 10)]),
     (''Performance'', FloatCol [Some (1 / 2), Some (7 / 10), Some (9 / 10)]),
     (''Planned days'', FloatCol [Some 1, Some 1, Some 1])]\<rparr>"

definition scenario_B :: dataframe where
  "scenario_B = \<lparr>nrows = 3, columns =
    [(''Machine'', TextCol [Some ''M1'', Some ''M1'', Some ''M2'']),
     (''Production per unit'', FloatCol [Some 0, Some 0, Some 10]),
     (''Reject per unit'', FloatCol [Some 0, Some 0, Some 1]),
     (''Performance %'', FloatCol [Some (1 / 2), Some (7 / 10), Some (9 / 10)]),
     (''Working days'', FloatCol [Some 1, Some 1, Some 1]),
     (''downtime'', FloatCol [Some 0, Some 60, Some (- 6)]),
     (''Good units'', FloatCol [Some 0, Some 0, Some 9]),
     (''Quality'', FloatCol [None, None, Some (9 / 10)]),
     (''Performance'', FloatCol [Some (1 / 2), Some (7 / 10), Some (9 / 10)]),
     (''Planned days'', FloatCol [Some 1, Some 1, Some 1]),
     (''Planned hours'', FloatCol [Some 24, Some 24, Some 24]),
     (''Availability'', FloatCol [Some 1, Some 0, Some 1]),
     (''OEE'', FloatCol [None, None, Some (81 / 100)])]\<rparr>"

text \<open>The records of machine \<^verbatim>\<open>M1\<close> of the previous frame: what the machine filter of
  \<^verbatim>\<open>main\<close> leaves when only \<^verbatim>\<open>M1\<close> is selected.\<close>

definition scenario_Z :: dataframe where
  "scenario_Z = \<lparr>nrows = 2, columns =
    [(''Machine'', TextCol [Some ''M1'', Some ''M1'']),
     (''Production per unit'', FloatCol [Some 0, Some 0]),
     (''Reject per unit'', FloatCol [Some 0, Some 0]),
     (''Performance %'', FloatCol [Some (1 / 2), Some (7 / 10)]),
     (''Working days'', FloatCol [Some 1, Some 1]),
     (''downtime'', FloatCol [Some 0, Some 60]),
     (''Good units'', FloatCol [Some 0, Some 0]),
     (''Quality'', FloatCol [None, None]),
     (''Performance'', FloatCol [Some (1 / 2), Some (7 / 10)]),
     (''Planned days'', FloatCol [Some 1, Some 1]),
     (''Planned hours'', FloatCol [Some 24, Some 24]),
     (''Availability'', FloatCol [Some 1, Some 0]),
     (''OEE'', FloatCol [None, None])]\<rparr>"


text \<open>
  One record, and the same record with text in the column \<^verbatim>\<open>Production per unit\<close>.
\<close>

definition scenario_one :: dataframe where
  "scenario_one = \<lparr>nrows = 1, columns =
    [(''Machine'', TextCol [Some ''M1'']),
     (''Production per unit'', FloatCol [Some 100]),
     (''Reject per unit'', FloatCol [Some 10]),
     (''Performance %'', FloatCol [Some (9 / 10)]),
     (''Working days'', FloatCol [Some 1]),
     (''downtime'', FloatCol [Some 2]),
     (''Good units'', FloatCol [Some 90]),
     (''Quality'', FloatCol [Some (9 / 10)]),
     (''Performance'', FloatCol [Some (9 / 10)]),
     (''Planned days'', FloatCol [Some 1]),
     (''Planned hours'', FloatCol [Some 24]),
     (''Availability'', FloatCol [Some (11 / 12)]),
     (''OEE'', FloatCol [Some (297 / 400)])]\<rparr>"

definition scenario_one_text :: dataframe where
  "scenario_one_text = \<lparr>nrows = 1, columns =
    [(''Machine'', TextCol [Some ''M1'']),
     (''Production per unit'', TextCol [Some ''n/a'']),
     (''Reject per unit'', FloatCol [Some 10]),
     (''Performance %'', FloatCol [Some (9 / 10)]),
     (''Working days'', FloatCol [Some 1]),
     (''downtime'', FloatCol [Some 2]),
     (''Good units'', FloatCol [Some 90]),
     (''Quality'', FloatCol [Some (9 / 10)]),
     (''Performance'', FloatCol [Some (9 / 10)]),
     (''Planned days'', FloatCol [Some 1]),
     (''Planned hours'', FloatCol [Some 24]),
     (''Availability'', FloatCol [Some (11 / 12)]),
     (''OEE'', FloatCol [Some (297 / 400)])]\<rparr>"

text \<open>A store that holds one frame, at address 0.\<close>

definition store_with :: "dataframe \<Rightarrow> store" where
  "store_with df = \<lparr>frames = (\<lambda>a. if a = 0 then df else \<lparr>nrows = 0, columns = []\<rparr>),
                    next_addr = 1\<rparr>"

section \<open>Basic facts about the model\<close>

lemma and_then_Inr [simp]: "and_then (Inr x) f = f x"
  by (simp add: and_then_def)

lemma and_then_Inl [simp]: "and_then (Inl e) f = Inl e"
  by (simp add: and_then_def)

lemma and_then_eq_Inr: "and_then m f = Inr y \<longleftrightarrow> (\<exists>x. m = Inr x \<and> f x = Inr y)"
  by (cases m) simp_all

lemma getitem_setitem: "getitem (setitem df c col) c' = (if c' = c then Inr col else getitem df c')"
  by (simp add: getitem_def setitem_def update_conv')

lemma nrows_setitem [simp]: "nrows (setitem df c col) = nrows df"
  by (simp add: setitem_def)

lemma col_sub_Inr: "col_sub a b = Inr r \<longleftrightarrow> (\<exists>xs ys. a = FloatCol xs \<and> b = FloatCol ys \<and> r = FloatCol (map2 fsub xs ys))"
  by (cases a; cases b) auto

lemma col_div_Inr: "col_div a b = Inr r \<longleftrightarrow> (\<exists>xs ys. a = FloatCol xs \<and> b = FloatCol ys \<and> r = FloatCol (map2 fdiv xs ys))"
  by (cases a; cases b) auto

lemma col_mul_Inr: "col_mul a b = Inr r \<longleftrightarrow> (\<exists>xs ys. a = FloatCol xs \<and> b = FloatCol ys \<and> r = FloatCol (map2 fmul xs ys))"
  by (cases a; cases b) auto

lemma col_mul_scalar_Inr: "col_mul_scalar a h = Inr r \<longleftrightarrow> (\<exists>xs. a = FloatCol xs \<and> r = FloatCol (map (\<lambda>x. fmul x (Some h)) xs))"
  by (cases a) auto

lemma scalar_sub_Inr: "scalar_sub x a = Inr r \<longleftrightarrow> (\<exists>xs. a = FloatCol xs \<and> r = FloatCol (map (fsub (Some x)) xs))"
  by (cases a) auto

lemma col_gt0_Inr: "col_gt0 a = Inr r \<longleftrightarrow> (\<exists>xs. a = FloatCol xs \<and> r = map gt0 xs)"
  by (cases a) auto

lemma col_clip_Inr: "col_clip a lo hi = Inr r \<longleftrightarrow> (\<exists>xs. a = FloatCol xs \<and> r = FloatCol (map (fclip lo hi) xs))"
  by (cases a) auto

lemmas col_op_Inr = col_sub_Inr col_div_Inr col_mul_Inr col_mul_scalar_Inr scalar_sub_Inr col_gt0_Inr col_clip_Inr

lemma add_oee_metrics_Inr:
  assumes "add_oee_metrics s a h = Inr (s', a')"
  shows "\<exists>days down perf qual.
           getitem (frames s a) ''Planned days'' = Inr (FloatCol days) \<and>
           getitem (frames s a) ''downtime'' = Inr (FloatCol down) \<and>
           getitem (frames s a) ''Performance'' = Inr (FloatCol perf) \<and>
           getitem (frames s a) ''Quality'' = Inr (FloatCol qual) \<and>
           a' = next_addr s \<and>
           s' = s\<lparr>frames := (frames s)(next_addr s := with_metrics (frames s a) days down perf qual h),
                  next_addr := Suc (next_addr s)\<rparr>"
  using assms
  unfolding add_oee_metrics_def copy_def
  apply (simp add: and_then_eq_Inr getitem_at_def setitem_at_def getitem_setitem Let_def col_op_Inr)
  apply (auto simp: with_metrics_def planned_hours_of_def availability_of_def oee_of_def setitem_def)
  done

section \<open>Labels, levels and the join\<close>

lemma set_insert_label [simp]: "set (insert_label g hs) = insert g (set hs)"
  by (induction hs) auto

lemma distinct_insert_label: "g \<notin> set hs \<Longrightarrow> distinct hs \<Longrightarrow> distinct (insert_label g hs)"
  by (induction hs) auto

lemma set_sort_labels [simp]: "set (sort_labels gs) = set gs"
  by (induction gs) (auto simp: sort_labels_def)

lemma distinct_sort_labels: "distinct gs \<Longrightarrow> distinct (sort_labels gs)"
  by (induction gs) (auto simp: sort_labels_def distinct_insert_label set_sort_labels[unfolded sort_labels_def])

lemma set_present [simp]: "set (present xs) = {x. Some x \<in> set xs}"
  by (induction xs rule: present.induct) auto

lemma set_group_labels: "set (group_labels ks) = {g. Some g \<in> set ks}"
  by (simp add: group_labels_def)

lemma distinct_group_labels: "distinct (group_labels ks)"
  by (simp add: group_labels_def distinct_sort_labels)

lemma length_row_cells: "list_all (\<lambda>c. length c = n) cs \<Longrightarrow> length (row_cells n cs) = n"
  by (induction cs) auto

lemma cells_same_kind: "Some c \<in> set (cells col) \<Longrightarrow> same_kind col c"
proof (cases col)
  case (FloatCol xs)
  assume "Some c \<in> set (cells col)"
  then obtain x where "Some c = map_option F x" using FloatCol by auto
  then show ?thesis using FloatCol by (cases x) auto
next
  case (TextCol ss)
  assume "Some c \<in> set (cells col)"
  then obtain x where "Some c = map_option S x" using TextCol by auto
  then show ?thesis using TextCol by (cases x) auto
qed

lemma those_Cons_Some: "those (x # r) = Some g \<longleftrightarrow> (\<exists>c g'. x = Some c \<and> those r = Some g' \<and> g = c # g')"
  by (auto split: option.splits)

lemma row_labels_conform:
  "Some g \<in> set (row_labels n cols) \<Longrightarrow> list_all2 same_kind cols g"
proof (induction cols arbitrary: g)
  case Nil
  then show ?case by (auto simp: row_labels_def)
next
  case (Cons col cols)
  from Cons.prems obtain r where r: "r \<in> set (row_cells n (map cells (col # cols)))" "those r = Some g"
    unfolding row_labels_def by (metis (no_types, lifting) imageE set_map)
  from r(1) obtain x r' where xr: "r = x # r'" "(x, r') \<in> set (zip (cells col) (row_cells n (map cells cols)))"
    by auto
  then have xin: "x \<in> set (cells col)" and rin: "r' \<in> set (row_cells n (map cells cols))"
    by (auto dest: set_zip_leftD set_zip_rightD)
  have "those (x # r') = Some g" using r(2) unfolding xr(1) .
  then obtain c g' where g: "x = Some c" "those r' = Some g'" "g = c # g'"
    unfolding those_Cons_Some by blast
  have "Some g' \<in> set (row_labels n cols)"
    unfolding row_labels_def using rin g(2) by (metis image_eqI set_map)
  then have "list_all2 same_kind cols g'" by (rule Cons.IH)
  moreover have "same_kind col c" using xin g(1) by (simp add: cells_same_kind)
  ultimately show ?case by (simp add: g(3))
qed

lemma cell_at_0 [simp]: "cell_at (c # g) 0 = Some c"
  by (simp add: cell_at_def)

lemma cell_at_Suc [simp]: "cell_at (c # g) (Suc l) = cell_at g l"
  by (simp add: cell_at_def)

lemma cells_level_col_0:
  "\<forall>g\<in>set gs. \<exists>c g'. g = c # g' \<and> same_kind col c \<Longrightarrow>
   cells (level_col col gs 0) = map (\<lambda>g. Some (hd g)) gs"
proof (cases col)
  case (FloatCol xs)
  assume a: "\<forall>g\<in>set gs. \<exists>c g'. g = c # g' \<and> same_kind col c"
  have "\<And>g. g \<in> set gs \<Longrightarrow> map_option F (case cell_at g 0 of Some (F x) \<Rightarrow> Some x | _ \<Rightarrow> None) = Some (hd g)"
  proof -
    fix g assume "g \<in> set gs"
    with a obtain c g' where "g = c # g'" "same_kind col c" by blast
    then show "map_option F (case cell_at g 0 of Some (F x) \<Rightarrow> Some x | _ \<Rightarrow> None) = Some (hd g)"
      using FloatCol by (cases c) auto
  qed
  then show ?thesis using FloatCol by simp
next
  case (TextCol ss)
  assume a: "\<forall>g\<in>set gs. \<exists>c g'. g = c # g' \<and> same_kind col c"
  have "\<And>g. g \<in> set gs \<Longrightarrow> map_option S (case cell_at g 0 of Some (S x) \<Rightarrow> Some x | _ \<Rightarrow> None) = Some (hd g)"
  proof -
    fix g assume "g \<in> set gs"
    with a obtain c g' where "g = c # g'" "same_kind col c" by blast
    then show "map_option S (case cell_at g 0 of Some (S x) \<Rightarrow> Some x | _ \<Rightarrow> None) = Some (hd g)"
      using TextCol by (cases c) auto
  qed
  then show ?thesis using TextCol by simp
qed

lemma level_col_Suc:
  "\<forall>g\<in>set gs. g \<noteq> [] \<Longrightarrow> level_col col gs (Suc l) = level_col col (map tl gs) l"
  by (cases col) (auto simp: neq_Nil_conv)

lemma zip_upt_Suc: "zip (x # xs) [0 ..< Suc (length xs)] = (x, 0) # map (\<lambda>(y, l). (y, Suc l)) (zip xs [0 ..< length xs])"
proof -
  have "[0 ..< Suc (length xs)] = 0 # map Suc [0 ..< length xs]"
    by (simp add: upt_conv_Cons map_Suc_upt del: upt_Suc)
  then show ?thesis by (simp add: zip_map2 del: upt_Suc)
qed

lemma row_cells_levels:
  "\<forall>g\<in>set gs. list_all2 same_kind cols g \<Longrightarrow>
   row_cells (length gs) (map (\<lambda>(col, l). cells (level_col col gs l)) (zip cols [0 ..< length cols]))
     = map (map Some) gs"
proof (induction cols arbitrary: gs)
  case Nil
  then have "\<forall>g\<in>set gs. g = []" by simp
  then have "map (map Some) gs = replicate (length gs) []"
    by (induction gs) auto
  then show ?case by simp
next
  case (Cons col cols)
  have ne: "\<forall>g\<in>set gs. \<exists>c g'. g = c # g' \<and> same_kind col c"
    using Cons.prems by (auto simp: list_all2_Cons1)
  then have ne': "\<forall>g\<in>set gs. g \<noteq> []" by auto
  have tl: "\<forall>g\<in>set (map tl gs). list_all2 same_kind cols g"
    using Cons.prems by (auto simp: list_all2_Cons1)
  have IH: "row_cells (length gs) (map (\<lambda>(col, l). cells (level_col col (map tl gs) l)) (zip cols [0 ..< length cols]))
     = map (map Some) (map tl gs)"
    using Cons.IH[OF tl] by simp
  have "map (\<lambda>(c, l). cells (level_col c gs l)) (zip (col # cols) [0 ..< length (col # cols)])
      = cells (level_col col gs 0) # map (\<lambda>(c, l). cells (level_col c (map tl gs) l)) (zip cols [0 ..< length cols])"
    using ne' by (simp add: zip_upt_Suc level_col_Suc case_prod_unfold comp_def del: upt_Suc)
  then have "row_cells (length gs) (map (\<lambda>(c, l). cells (level_col c gs l)) (zip (col # cols) [0 ..< length (col # cols)]))
      = map2 (#) (map (\<lambda>g. Some (hd g)) gs) (map (map Some) (map tl gs))"
    using IH cells_level_col_0[OF ne] by simp
  also have "\<dots> = map (map Some) gs"
    using ne' by (induction gs) (auto simp: neq_Nil_conv)
  finally show ?case .
qed

lemma filter_upt_single:
  assumes "i < n" "\<And>j. j < n \<Longrightarrow> P j \<longleftrightarrow> j = i"
  shows "filter P [0 ..< n] = [i]"
proof -
  have "[0 ..< n] = [0 ..< i] @ [i] @ [Suc i ..< n]"
    using assms(1) by (metis append_Cons append_Nil le_add1 less_imp_add_positive upt_add_eq_append upt_conv_Cons zero_le)
  moreover have "filter P [0 ..< i] = []" using assms by (auto simp: filter_empty_conv)
  moreover have "filter P [Suc i ..< n] = []" using assms by (auto simp: filter_empty_conv)
  moreover have "P i" using assms by simp
  ultimately show ?thesis by simp
qed

lemma enumerate_nth: "enumerate 0 ks = map (\<lambda>j. (j, ks ! j)) [0 ..< length ks]"
  by (rule nth_equalityI) (auto simp: nth_enumerate_eq)

lemma matches_distinct:
  assumes "distinct ks" "i < length ks"
  shows "matches ks (ks ! i) = [i]"
proof -
  have "matches ks (ks ! i) = filter (\<lambda>j. ks ! j = ks ! i) [0 ..< length ks]"
    by (simp add: matches_def enumerate_nth filter_map comp_def)
  also have "\<dots> = [i]"
    using assms by (intro filter_upt_single) (auto simp: nth_eq_iff_index_eq)
  finally show ?thesis .
qed

lemma join_rows_same:
  assumes "distinct ks"
  shows "join_rows ks ks = map (\<lambda>i. (i, Some i)) [0 ..< length ks]"
proof -
  have "map (\<lambda>(i, k). case matches ks k of [] \<Rightarrow> [(i, None)] | js \<Rightarrow> map (\<lambda>j. (i, Some j)) js)
            (enumerate 0 ks) = map (\<lambda>i. [(i, Some i)]) [0 ..< length ks]"
    unfolding enumerate_nth map_map
    by (rule map_cong) (auto simp: matches_distinct[OF assms])
  then have "join_rows ks ks = concat (map (\<lambda>i. [(i, Some i)]) [0 ..< length ks])"
    unfolding join_rows_def by simp
  then show ?thesis by (simp add: concat_map_singleton)
qed

section \<open>The stages of aggregate_oee\<close>

lemma map_of_append_notin: "c \<notin> fst ` set kc \<Longrightarrow> map_of (kc @ rest) c = map_of rest c"
  by (simp add: map_add_def map_of_eq_None_iff[symmetric] split: option.splits)

lemma update_append_notin: "c \<notin> fst ` set kc \<Longrightarrow> AList.update c v (kc @ rest) = kc @ AList.update c v rest"
  by (induction kc) auto

lemma insert_levels_named:
  "distinct (map fst kc) \<Longrightarrow> fst ` set kc \<inter> fst ` set cols = {} \<Longrightarrow>
   insert_levels (map (\<lambda>(k, c). (Some k, c)) kc) cols = Inr (kc @ cols)"
proof (induction kc)
  case Nil
  then show ?case by simp
next
  case (Cons a kc)
  obtain k c where a: "a = (k, c)" by (cases a)
  have "insert_levels (map (\<lambda>(k, c). (Some k, c)) kc) cols = Inr (kc @ cols)"
    using Cons by auto
  moreover have "k \<notin> fst ` set (kc @ cols)" using Cons.prems a by auto
  ultimately show ?case using a by simp
qed

lemma groupby_ok:
  "keys \<noteq> [] \<Longrightarrow> list_all (\<lambda>k. k \<in> set (names df)) keys \<Longrightarrow>
   groupby df keys = Inr (map (\<lambda>k. (Some k, the_col df k)) keys)"
  by (simp add: groupby_def)

lemma is_floatD: "is_float df c \<Longrightarrow> getitem df c = Inr (FloatCol (floats df c))"
  by (auto simp: is_float_def floats_def getitem_def split: option.splits column.splits)

lemma is_float_names: "is_float df c \<Longrightarrow> c \<in> set (names df)"
  by (auto simp: is_float_def names_def split: option.splits dest!: map_of_SomeD intro: rev_image_eqI)


lemma aggregate_cols_ok:
  "list_all (\<lambda>(out, src, f). is_float df src) specs \<Longrightarrow>
   aggregate_cols df ks gs specs =
     Inr (map (\<lambda>(out, src, f). (out, FloatCol (case f of
              Sum \<Rightarrow> map (\<lambda>g. Some (nansum (group_values ks (floats df src) g))) gs
            | Mean \<Rightarrow> map (\<lambda>g. nanmean (group_values ks (floats df src) g)) gs))) specs)"
proof (induction specs)
  case Nil
  then show ?case by simp
next
  case (Cons a specs)
  obtain out src f where a: "a = (out, src, f)" by (cases a)
  have fl: "getitem df src = Inr (FloatCol (floats df src))"
    using Cons.prems a by (simp add: is_floatD)
  show ?case using Cons a fl by (cases f) simp_all
qed

lemma map_fst_key_columns [simp]: "map fst (key_columns df gc) = gc"
proof -
  have "map fst (key_columns df gc) = map fst (zip gc [0 ..< length gc])"
    by (simp add: key_columns_def case_prod_unfold comp_def)
  then show ?thesis by simp
qed

lemma length_key_columns [simp]: "length (key_columns df gc) = length gc"
  by (simp add: key_columns_def)

lemma groupby_agg_ok:
  assumes "gc \<noteq> []" "list_all (\<lambda>k. k \<in> set (names df)) gc"
      and "list_all (\<lambda>(out, src, f). is_float df src) specs"
  shows "groupby_agg df gc specs =
     Inr \<lparr>levels = map (\<lambda>(k, c). (Some k, c)) (key_columns df gc),
          data = \<lparr>nrows = length (groups_of df gc),
                  columns = map (\<lambda>(out, src, f). (out, FloatCol (case f of
                       Sum \<Rightarrow> group_sums df gc src | Mean \<Rightarrow> group_means df gc src))) specs\<rparr>\<rparr>"
proof -
  have ex: "list_all (\<lambda>(out, src, f). src \<in> set (names df)) specs"
    using assms(3) by (auto simp: list_all_iff is_float_names)
  have lv: "map (\<lambda>((n, col), l). (n, level_col col (groups_of df gc) l))
              (zip (map (\<lambda>k. (Some k, the_col df k)) gc) [0 ..< length gc])
          = map (\<lambda>(k, c). (Some k, c)) (key_columns df gc)"
    by (simp add: key_columns_def zip_map1 case_prod_unfold comp_def)
  show ?thesis
    unfolding groupby_agg_def groupby_ok[OF assms(1,2)]
    using ex lv
    by (simp add: Let_def aggregate_cols_ok[OF assms(3)] labels_of_def[symmetric] groups_of_def[symmetric]
         comp_def group_sums_def group_means_def members_def aggfunc.case_distrib[of "\<lambda>xs. FloatCol xs"] cong: aggfunc.case_cong)
qed

lemma reset_index_ok:
  assumes "distinct gc" "set gc \<inter> fst ` set cols = {}"
  shows "reset_index \<lparr>levels = map (\<lambda>(k, c). (Some k, c)) (key_columns df gc),
                      data = \<lparr>nrows = n, columns = cols\<rparr>\<rparr>
         = Inr \<lparr>nrows = n, columns = key_columns df gc @ cols\<rparr>"
proof -
  have "fst ` set (key_columns df gc) = set gc"
    by (metis map_fst_key_columns set_map)
  then show ?thesis
    using assms by (simp add: reset_index_def insert_levels_named)
qed


lemma fst_in_set: "(a, b) \<in> set xs \<Longrightarrow> a \<in> fst ` set xs"
  by (rule image_eqI[of _ _ "(a, b)"]) simp_all

lemma take_rows_all: "col_len col = n \<Longrightarrow> take_rows col (map Some [0 ..< n]) = col"
  by (cases col) (auto simp: pick_def comp_def intro!: nth_equalityI)

lemma the_col_keys:
  assumes "distinct (map fst kc)"
  shows "map (the_col \<lparr>nrows = n, columns = kc @ X\<rparr>) (map fst kc) = map snd kc"
proof -
  have "\<And>k c. (k, c) \<in> set kc \<Longrightarrow> the_col \<lparr>nrows = n, columns = kc @ X\<rparr> k = c"
    using assms by (simp add: the_col_def map_add_def)
  then show ?thesis by (auto simp: comp_def)
qed

lemma merge_left_same_keys:
  assumes on: "distinct on" "map fst kc = on"
      and ks: "row_cells n (map (cells \<circ> snd) kc) = ks" "distinct ks" "length ks = n"
      and len: "list_all (\<lambda>(c, col). col_len col = n) (kc @ L)"
               "list_all (\<lambda>(c, col). col_len col = n) R"
      and dj: "set on \<inter> fst ` set L = {}" "set on \<inter> fst ` set R = {}"
              "fst ` set L \<inter> fst ` set R = {}"
  shows "merge_left \<lparr>nrows = n, columns = kc @ L\<rparr> \<lparr>nrows = n, columns = kc @ R\<rparr> on
         = Inr \<lparr>nrows = n, columns = kc @ L @ R\<rparr>"
proof -
  have son: "set on = fst ` set kc" using on(2) by (metis set_map)
  have chk: "list_all (\<lambda>k. k \<in> set (names \<lparr>nrows = n, columns = kc @ R\<rparr>) \<and>
                          k \<in> set (names \<lparr>nrows = n, columns = kc @ L\<rparr>)) on"
    using son by (auto simp: list_all_iff names_def)
  have oc: "on_cells \<lparr>nrows = n, columns = kc @ X\<rparr> on = ks" for X
  proof -
    have "map (\<lambda>k. cells (the_col \<lparr>nrows = n, columns = kc @ X\<rparr> k)) on
            = map cells (map (the_col \<lparr>nrows = n, columns = kc @ X\<rparr>) (map fst kc))"
      using on(2) by (simp add: comp_def)
    also have "\<dots> = map cells (map snd kc)"
      using on the_col_keys[of kc n X] by simp
    also have "\<dots> = map (cells \<circ> snd) kc" by simp
    finally show ?thesis using ks(1) by (simp add: on_cells_def)
  qed
  have pairs: "join_rows ks ks = map (\<lambda>i. (i, Some i)) [0 ..< n]"
    using join_rows_same[OF ks(2)] ks(3) by simp
  have rest: "filter (\<lambda>(c, col). c \<notin> set on) (kc @ R) = R"
  proof -
    have "filter (\<lambda>(c, col). c \<notin> set on) kc = []"
      using son by (auto simp: filter_empty_conv dest: fst_in_set)
    moreover have "filter (\<lambda>(c, col). c \<notin> set on) R = R"
      using dj(2) by (auto simp: filter_id_conv dest: fst_in_set)
    ultimately show ?thesis by simp
  qed
  have left: "map (\<lambda>(c, col). (if c \<notin> set on \<and> c \<in> fst ` set R then c @ ''_x'' else c,
                                take_rows col (map (Some \<circ> fst) (map (\<lambda>i. (i, Some i)) [0 ..< n]))))
                 (kc @ L) = kc @ L"
  proof -
    have "\<And>c col. (c, col) \<in> set (kc @ L) \<Longrightarrow>
            (if c \<notin> set on \<and> c \<in> fst ` set R then c @ ''_x'' else c,
             take_rows col (map (Some \<circ> fst) (map (\<lambda>i. (i, Some i)) [0 ..< n]))) = (c, col)"
    proof -
      fix c col assume m: "(c, col) \<in> set (kc @ L)"
      then have "col_len col = n" using len(1) by (auto simp: list_all_iff)
      then have "take_rows col (map (Some \<circ> fst) (map (\<lambda>i. (i, Some i)) [0 ..< n])) = col"
        by (simp add: comp_def take_rows_all)
      moreover have "c \<in> fst ` set kc \<or> c \<in> fst ` set L"
        using m by (auto dest: fst_in_set)
      then have "\<not> (c \<notin> set on \<and> c \<in> fst ` set R)"
        using dj(3) son by blast
      ultimately show "(if c \<notin> set on \<and> c \<in> fst ` set R then c @ ''_x'' else c,
             take_rows col (map (Some \<circ> fst) (map (\<lambda>i. (i, Some i)) [0 ..< n]))) = (c, col)"
        by simp
    qed
    then show ?thesis by (intro map_idI) auto
  qed
  have right: "map (\<lambda>(c, col). (if c \<in> set (names \<lparr>nrows = n, columns = kc @ L\<rparr>) then c @ ''_y'' else c,
                                 take_rows col (map snd (map (\<lambda>i. (i, Some i)) [0 ..< n]))))
                   R = R"
  proof -
    have "\<And>c col. (c, col) \<in> set R \<Longrightarrow>
            (if c \<in> set (names \<lparr>nrows = n, columns = kc @ L\<rparr>) then c @ ''_y'' else c,
             take_rows col (map snd (map (\<lambda>i. (i, Some i)) [0 ..< n]))) = (c, col)"
    proof -
      fix c col assume m: "(c, col) \<in> set R"
      then have "col_len col = n" using len(2) by (auto simp: list_all_iff)
      then have "take_rows col (map snd (map (\<lambda>i. (i, Some i)) [0 ..< n])) = col"
        by (simp add: comp_def take_rows_all)
      moreover have "c \<in> fst ` set R" using m by (rule fst_in_set)
      then have "c \<notin> set (names \<lparr>nrows = n, columns = kc @ L\<rparr>)"
        using dj(2,3) son by (simp add: names_def) blast
      ultimately show "(if c \<in> set (names \<lparr>nrows = n, columns = kc @ L\<rparr>) then c @ ''_y'' else c,
             take_rows col (map snd (map (\<lambda>i. (i, Some i)) [0 ..< n]))) = (c, col)"
        by simp
    qed
    then show ?thesis by (intro map_idI) auto
  qed
  have len_pairs: "length (map (\<lambda>i. (i, Some i)) [0 ..< n]) = n" by simp
  show ?thesis
    unfolding merge_left_def oc pairs Let_def
    by (simp only: chk not_True_eq_False if_False dataframe.simps rest left right len_pairs append_assoc)
qed


lemma getitem_after_keys:
  "c \<notin> fst ` set kc \<Longrightarrow>
   getitem \<lparr>nrows = n, columns = kc @ rest\<rparr> c = getitem \<lparr>nrows = n, columns = rest\<rparr> c"
  by (simp add: getitem_def map_of_append_notin del: map_of_append)

lemma setitem_after_keys:
  "c \<notin> fst ` set kc \<Longrightarrow>
   setitem \<lparr>nrows = n, columns = kc @ rest\<rparr> c v = \<lparr>nrows = n, columns = kc @ AList.update c v rest\<rparr>"
  by (simp add: setitem_def update_append_notin)

lemma length_group_sums [simp]: "length (group_sums df gc c) = length (groups_of df gc)"
  by (simp add: group_sums_def)

lemma length_group_means [simp]: "length (group_means df gc c) = length (groups_of df gc)"
  by (simp add: group_means_def)

lemma length_quality_of [simp]: "length (quality_of g p) = min (length p) (length g)"
  by (simp add: quality_of_def)

lemma length_availability_of [simp]: "length (availability_of d h) = min (length h) (length d)"
  by (simp add: availability_of_def)

lemma col_len_level_col [simp]: "col_len (level_col col gs l) = length gs"
  by (cases col) simp_all

lemma groups_conform:
  "g \<in> set (groups_of df gc) \<Longrightarrow> list_all2 same_kind (map (the_col df) gc) g"
  by (simp add: groups_of_def set_group_labels labels_of_def row_labels_conform)

lemma key_cells:
  "row_cells (length (groups_of df gc)) (map (cells \<circ> snd) (key_columns df gc))
     = map (map Some) (groups_of df gc)"
proof -
  have "map (cells \<circ> snd) (key_columns df gc)
      = map (\<lambda>(col, l). cells (level_col col (groups_of df gc) l))
            (zip (map (the_col df) gc) [0 ..< length (map (the_col df) gc)])"
    by (simp add: key_columns_def zip_map1 case_prod_unfold comp_def)
  then show ?thesis
    using row_cells_levels[of "groups_of df gc" "map (the_col df) gc"] groups_conform[of _ df gc]
    by simp
qed

lemma distinct_groups_of: "distinct (groups_of df gc)"
  by (simp add: groups_of_def distinct_group_labels)

lemma aggregable_keys:
  assumes "aggregable df gc"
  shows "gc \<noteq> []" "distinct gc" "list_all (\<lambda>k. k \<in> set (names df)) gc"
        "\<And>c. c \<in> set reserved_labels \<Longrightarrow> c \<notin> fst ` set (key_columns df gc)"
proof -
  show "gc \<noteq> []" "distinct gc" "list_all (\<lambda>k. k \<in> set (names df)) gc"
    using assms by (auto simp: aggregable_def list_all_iff)
  have "fst ` set (key_columns df gc) = set gc" by (metis map_fst_key_columns set_map)
  then show "\<And>c. c \<in> set reserved_labels \<Longrightarrow> c \<notin> fst ` set (key_columns df gc)"
    using assms by (auto simp: aggregable_def list_all_iff)
qed

lemma getitem_Cons:
  "getitem \<lparr>nrows = n, columns = (k, v) # rest\<rparr> c =
     (if c = k then Inr v else getitem \<lparr>nrows = n, columns = rest\<rparr> c)"
  by (simp add: getitem_def)

lemma getitem_Nil: "getitem \<lparr>nrows = n, columns = []\<rparr> c = Inl KeyError"
  by (simp add: getitem_def)

lemma aggregate_oee_ok:
  assumes ag: "aggregable df gc"
  shows "aggregate_oee df gc = Inr (grouped_frame df gc)"
proof -
  define kc where "kc = key_columns df gc"
  define n where "n = length (groups_of df gc)"
  define P where "P = group_sums df gc ''Production per unit''"
  define G where "G = group_sums df gc ''Good units''"
  define R where "R = group_sums df gc ''Reject per unit''"
  define D where "D = group_sums df gc ''downtime''"
  define H where "H = group_sums df gc ''Planned hours''"
  define M where "M = group_means df gc ''Performance''"
  define L where "L = [(''Production_units'', FloatCol P), (''Good_units'', FloatCol G),
                       (''Reject_units'', FloatCol R), (''Downtime'', FloatCol D),
                       (''Planned_hours'', FloatCol H),
                       (''Quality'', FloatCol (quality_of G P)),
                       (''Availability'', FloatCol (availability_of D H))]"
  note keys = aggregable_keys[OF ag]
  have res: "''Production_units'' \<notin> fst ` set kc" "''Good_units'' \<notin> fst ` set kc"
            "''Reject_units'' \<notin> fst ` set kc" "''Downtime'' \<notin> fst ` set kc"
            "''Planned_hours'' \<notin> fst ` set kc" "''Quality'' \<notin> fst ` set kc"
            "''Availability'' \<notin> fst ` set kc" "''Performance'' \<notin> fst ` set kc"
            "''OEE'' \<notin> fst ` set kc"
    unfolding kc_def by (rule keys(4), simp add: reserved_labels_def)+
  have fl: "list_all (\<lambda>(out, src, f). is_float df src)
              [(''Production_units'', ''Production per unit'', Sum),
               (''Good_units'', ''Good units'', Sum),
               (''Reject_units'', ''Reject per unit'', Sum),
               (''Downtime'', ''downtime'', Sum),
               (''Planned_hours'', ''Planned hours'', Sum)]"
       "list_all (\<lambda>(out, src, f). is_float df src) [(''Performance'', ''Performance'', Mean)]"
    using ag by (simp_all add: aggregable_def)
  have setkc: "set gc = fst ` set kc"
    unfolding kc_def by (metis map_fst_key_columns set_map)
  have s1: "groupby_agg df gc
              [(''Production_units'', ''Production per unit'', Sum),
               (''Good_units'', ''Good units'', Sum),
               (''Reject_units'', ''Reject per unit'', Sum),
               (''Downtime'', ''downtime'', Sum),
               (''Planned_hours'', ''Planned hours'', Sum)]
        = Inr \<lparr>levels = map (\<lambda>(k, c). (Some k, c)) kc,
               data = \<lparr>nrows = n, columns =
                  [(''Production_units'', FloatCol P), (''Good_units'', FloatCol G),
                   (''Reject_units'', FloatCol R), (''Downtime'', FloatCol D),
                   (''Planned_hours'', FloatCol H)]\<rparr>\<rparr>"
    unfolding groupby_agg_ok[OF keys(1) keys(3) fl(1)]
    by (simp add: kc_def n_def P_def G_def R_def D_def H_def)
  have s2: "reset_index \<lparr>levels = map (\<lambda>(k, c). (Some k, c)) kc,
               data = \<lparr>nrows = n, columns =
                  [(''Production_units'', FloatCol P), (''Good_units'', FloatCol G),
                   (''Reject_units'', FloatCol R), (''Downtime'', FloatCol D),
                   (''Planned_hours'', FloatCol H)]\<rparr>\<rparr>
        = Inr \<lparr>nrows = n, columns = kc @
                  [(''Production_units'', FloatCol P), (''Good_units'', FloatCol G),
                   (''Reject_units'', FloatCol R), (''Downtime'', FloatCol D),
                   (''Planned_hours'', FloatCol H)]\<rparr>"
    unfolding kc_def
    by (rule reset_index_ok[OF keys(2)]) (use res setkc in \<open>simp add: kc_def\<close>)
  have s3: "groupby_agg df gc [(''Performance'', ''Performance'', Mean)]
        = Inr \<lparr>levels = map (\<lambda>(k, c). (Some k, c)) kc,
               data = \<lparr>nrows = n, columns = [(''Performance'', FloatCol M)]\<rparr>\<rparr>"
    unfolding groupby_agg_ok[OF keys(1) keys(3) fl(2)]
    by (simp add: kc_def n_def M_def)
  have s4: "reset_index \<lparr>levels = map (\<lambda>(k, c). (Some k, c)) kc,
               data = \<lparr>nrows = n, columns = [(''Performance'', FloatCol M)]\<rparr>\<rparr>
        = Inr \<lparr>nrows = n, columns = kc @ [(''Performance'', FloatCol M)]\<rparr>"
    unfolding kc_def
    by (rule reset_index_ok[OF keys(2)]) (use res setkc in \<open>simp add: kc_def\<close>)
  have lens: "length P = n" "length G = n" "length R = n" "length D = n" "length H = n" "length M = n"
    by (simp_all add: P_def G_def R_def D_def H_def M_def n_def)
  have s5: "merge_left \<lparr>nrows = n, columns = kc @ L\<rparr>
                       \<lparr>nrows = n, columns = kc @ [(''Performance'', FloatCol M)]\<rparr> gc
        = Inr \<lparr>nrows = n, columns = kc @ L @ [(''Performance'', FloatCol M)]\<rparr>"
  proof (rule merge_left_same_keys[where ks = "map (map Some) (groups_of df gc)"])
    show "distinct gc" by (rule keys(2))
    show "map fst kc = gc" by (simp add: kc_def)
    show "row_cells n (map (cells \<circ> snd) kc) = map (map Some) (groups_of df gc)"
      unfolding n_def kc_def by (rule key_cells)
    show "distinct (map (map Some) (groups_of df gc))"
      by (simp add: distinct_map distinct_groups_of inj_on_def)
    show "length (map (map Some) (groups_of df gc)) = n" by (simp add: n_def)
    have "list_all (\<lambda>(c, col). col_len col = n) kc"
      by (auto simp: kc_def key_columns_def list_all_iff n_def)
    then show "list_all (\<lambda>(c, col). col_len col = n) (kc @ L)"
      by (simp add: L_def lens)
    show "list_all (\<lambda>(c, col). col_len col = n) [(''Performance'', FloatCol M)]"
      by (simp add: lens)
    show "set gc \<inter> fst ` set L = {}" using res by (simp add: setkc L_def)
    show "set gc \<inter> fst ` set [(''Performance'', FloatCol M)] = {}" using res by (simp add: setkc)
    show "fst ` set L \<inter> fst ` set [(''Performance'', FloatCol M)] = {}" by (simp add: L_def)
  qed
  have av: "map (fclip 0 1 \<circ> (\<lambda>(x, y). if x then y else None))
                (zip (map gt0 H) (map (fsub (Some 1) \<circ> (\<lambda>(x, y). fdiv x y)) (zip D H)))
            = availability_of D H"
    by (simp add: availability_of_def)
  have "aggregate_oee df gc
      = Inr \<lparr>nrows = n, columns = kc @ L @
               [(''Performance'', FloatCol M),
                (''OEE'', FloatCol (oee_of (availability_of D H) M (quality_of G P)))]\<rparr>"
    unfolding aggregate_oee_def s1 s3
    apply (simp only: and_then_Inr s2 s4)
    apply (simp add: av getitem_after_keys setitem_after_keys res Let_def getitem_Cons getitem_Nil
                     quality_of_def[symmetric] availability_of_def[symmetric])
    apply (simp add: s5[unfolded L_def] L_def getitem_after_keys setitem_after_keys res
                     getitem_Cons getitem_Nil oee_of_def)
    done
  then show ?thesis
    by (simp add: grouped_frame_def Let_def kc_def n_def L_def P_def G_def R_def D_def H_def M_def)
qed

section \<open>The result of add_oee_metrics\<close>

lemma setitem_same: "getitem df c = Inr col \<Longrightarrow> setitem df c col = df"
  by (auto simp: getitem_def setitem_def update_triv split: option.splits)

lemma getitem_with_metrics:
  "getitem (with_metrics df days down perf qual h) c =
     (if c = ''OEE'' then Inr (FloatCol (oee_of (availability_of down (planned_hours_of days h)) perf qual))
      else if c = ''Availability'' then Inr (FloatCol (availability_of down (planned_hours_of days h)))
      else if c = ''Planned hours'' then Inr (FloatCol (planned_hours_of days h))
      else getitem df c)"
  by (simp add: with_metrics_def getitem_setitem)

lemma nrows_with_metrics [simp]: "nrows (with_metrics df days down perf qual h) = nrows df"
  by (simp add: with_metrics_def)

lemma with_metrics_twice:
  "with_metrics (with_metrics df days down perf qual h) days down perf qual h
     = with_metrics df days down perf qual h"
proof -
  let ?w = "with_metrics df days down perf qual h"
  have 1: "setitem ?w ''Planned hours'' (FloatCol (planned_hours_of days h)) = ?w"
    by (rule setitem_same) (simp add: getitem_with_metrics)
  have 2: "setitem ?w ''Availability'' (FloatCol (availability_of down (planned_hours_of days h))) = ?w"
    by (rule setitem_same) (simp add: getitem_with_metrics)
  have 3: "setitem ?w ''OEE'' (FloatCol (oee_of (availability_of down (planned_hours_of days h)) perf qual)) = ?w"
    by (rule setitem_same) (simp add: getitem_with_metrics)
  show ?thesis
    unfolding with_metrics_def[of ?w] 1 2 3 ..
qed

lemma add_oee_metrics_ok:
  assumes "getitem (frames s a) ''Planned days'' = Inr (FloatCol days)"
      and "getitem (frames s a) ''downtime'' = Inr (FloatCol down)"
      and "getitem (frames s a) ''Performance'' = Inr (FloatCol perf)"
      and "getitem (frames s a) ''Quality'' = Inr (FloatCol qual)"
  shows "add_oee_metrics s a h =
           Inr (s\<lparr>frames := (frames s)(next_addr s := with_metrics (frames s a) days down perf qual h),
                  next_addr := Suc (next_addr s)\<rparr>, next_addr s)"
  using assms
  unfolding add_oee_metrics_def copy_def
  apply (simp add: getitem_at_def setitem_at_def getitem_setitem Let_def)
  apply (simp add: with_metrics_def planned_hours_of_def availability_of_def oee_of_def setitem_def)
  done

lemma add_oee_metrics_twice:
  assumes "add_oee_metrics s a h = Inr (s1, a1)"
  shows "\<exists>s2 a2. add_oee_metrics s1 a1 h = Inr (s2, a2) \<and> frames s2 a2 = frames s1 a1"
proof -
  from add_oee_metrics_Inr[OF assms] obtain days down perf qual where
    g: "getitem (frames s a) ''Planned days'' = Inr (FloatCol days)"
       "getitem (frames s a) ''downtime'' = Inr (FloatCol down)"
       "getitem (frames s a) ''Performance'' = Inr (FloatCol perf)"
       "getitem (frames s a) ''Quality'' = Inr (FloatCol qual)"
    and a1: "a1 = next_addr s"
    and s1: "s1 = s\<lparr>frames := (frames s)(next_addr s := with_metrics (frames s a) days down perf qual h),
                     next_addr := Suc (next_addr s)\<rparr>"
    by blast
  have f1: "frames s1 a1 = with_metrics (frames s a) days down perf qual h"
    by (simp add: s1 a1)
  have g1: "getitem (frames s1 a1) ''Planned days'' = Inr (FloatCol days)"
           "getitem (frames s1 a1) ''downtime'' = Inr (FloatCol down)"
           "getitem (frames s1 a1) ''Performance'' = Inr (FloatCol perf)"
           "getitem (frames s1 a1) ''Quality'' = Inr (FloatCol qual)"
    unfolding f1 using g by (simp_all add: getitem_with_metrics)
  show ?thesis
    unfolding add_oee_metrics_ok[OF g1]
    by (simp add: f1 with_metrics_twice)
qed

section \<open>Rows of the grouped frame\<close>

lemma getitem_grouped:
  assumes "aggregable df gc"
  shows "getitem (grouped_frame df gc) ''Production_units''
           = Inr (FloatCol (group_sums df gc ''Production per unit''))"
    and "getitem (grouped_frame df gc) ''Good_units'' = Inr (FloatCol (group_sums df gc ''Good units''))"
    and "getitem (grouped_frame df gc) ''Downtime'' = Inr (FloatCol (group_sums df gc ''downtime''))"
    and "getitem (grouped_frame df gc) ''Planned_hours''
           = Inr (FloatCol (group_sums df gc ''Planned hours''))"
    and "getitem (grouped_frame df gc) ''Quality''
           = Inr (FloatCol (quality_of (group_sums df gc ''Good units'')
                                       (group_sums df gc ''Production per unit'')))"
    and "getitem (grouped_frame df gc) ''Availability''
           = Inr (FloatCol (availability_of (group_sums df gc ''downtime'')
                                            (group_sums df gc ''Planned hours'')))"
    and "getitem (grouped_frame df gc) ''Performance''
           = Inr (FloatCol (group_means df gc ''Performance''))"
    and "getitem (grouped_frame df gc) ''OEE''
           = Inr (FloatCol (oee_of (availability_of (group_sums df gc ''downtime'')
                                                     (group_sums df gc ''Planned hours''))
                                    (group_means df gc ''Performance'')
                                    (quality_of (group_sums df gc ''Good units'')
                                                (group_sums df gc ''Production per unit''))))"
proof -
  note k = aggregable_keys(4)[OF assms]
  have res: "''Production_units'' \<notin> fst ` set (key_columns df gc)"
            "''Good_units'' \<notin> fst ` set (key_columns df gc)"
            "''Downtime'' \<notin> fst ` set (key_columns df gc)"
            "''Planned_hours'' \<notin> fst ` set (key_columns df gc)"
            "''Quality'' \<notin> fst ` set (key_columns df gc)"
            "''Availability'' \<notin> fst ` set (key_columns df gc)"
            "''Performance'' \<notin> fst ` set (key_columns df gc)"
            "''OEE'' \<notin> fst ` set (key_columns df gc)"
    by (rule k, simp add: reserved_labels_def)+
  show "getitem (grouped_frame df gc) ''Production_units''
           = Inr (FloatCol (group_sums df gc ''Production per unit''))"
    and "getitem (grouped_frame df gc) ''Good_units'' = Inr (FloatCol (group_sums df gc ''Good units''))"
    and "getitem (grouped_frame df gc) ''Downtime'' = Inr (FloatCol (group_sums df gc ''downtime''))"
    and "getitem (grouped_frame df gc) ''Planned_hours''
           = Inr (FloatCol (group_sums df gc ''Planned hours''))"
    and "getitem (grouped_frame df gc) ''Quality''
           = Inr (FloatCol (quality_of (group_sums df gc ''Good units'')
                                       (group_sums df gc ''Production per unit'')))"
    and "getitem (grouped_frame df gc) ''Availability''
           = Inr (FloatCol (availability_of (group_sums df gc ''downtime'')
                                            (group_sums df gc ''Planned hours'')))"
    and "getitem (grouped_frame df gc) ''Performance''
           = Inr (FloatCol (group_means df gc ''Performance''))"
    and "getitem (grouped_frame df gc) ''OEE''
           = Inr (FloatCol (oee_of (availability_of (group_sums df gc ''downtime'')
                                                     (group_sums df gc ''Planned hours''))
                                    (group_means df gc ''Performance'')
                                    (quality_of (group_sums df gc ''Good units'')
                                                (group_sums df gc ''Production per unit''))))"
    unfolding grouped_frame_def Let_def
    by (simp_all add: getitem_after_keys res getitem_Cons getitem_Nil)
qed

lemma nrows_grouped [simp]: "nrows (grouped_frame df gc) = length (groups_of df gc)"
  by (simp add: grouped_frame_def Let_def)

lemma group_sums_nth:
  "j < length (groups_of df gc) \<Longrightarrow>
   group_sums df gc c ! j = Some (nansum (members df gc c (groups_of df gc ! j)))"
  by (simp add: group_sums_def)

lemma group_means_nth:
  "j < length (groups_of df gc) \<Longrightarrow>
   group_means df gc c ! j = nanmean (members df gc c (groups_of df gc ! j))"
  by (simp add: group_means_def)

lemma quality_of_nth:
  "j < length good \<Longrightarrow> j < length prods \<Longrightarrow>
   quality_of good prods ! j = (if gt0 (prods ! j) then fdiv (good ! j) (prods ! j) else None)"
  by (simp add: quality_of_def)

lemma availability_of_nth:
  "j < length down \<Longrightarrow> j < length ph \<Longrightarrow>
   availability_of down ph ! j
     = fclip 0 1 (if gt0 (ph ! j) then fsub (Some 1) (fdiv (down ! j) (ph ! j)) else None)"
  by (simp add: availability_of_def)

lemma availability_cell:
  assumes "a = fclip 0 1 (if gt0 p then fsub (Some 1) (fdiv d p) else None)"
  shows "(\<forall>x. a = Some x \<longrightarrow> 0 \<le> x \<and> x \<le> 1) \<and>
         (\<forall>p' d'. p = Some p' \<and> d = Some d' \<and> 0 < p' \<longrightarrow>
                   (p' < d' \<longrightarrow> a = Some 0) \<and> (d' < 0 \<longrightarrow> a = Some 1))"
proof -
  have bounds: "\<forall>x. a = Some x \<longrightarrow> 0 \<le> x \<and> x \<le> 1"
  proof (intro allI impI)
    fix x assume "a = Some x"
    then obtain y where "x = min (max y 0) 1"
      using assms by (cases "if gt0 p then fsub (Some 1) (fdiv d p) else None") auto
    then show "0 \<le> x \<and> x \<le> 1" by auto
  qed
  have clamp: "\<forall>p' d'. p = Some p' \<and> d = Some d' \<and> 0 < p' \<longrightarrow>
                   (p' < d' \<longrightarrow> a = Some 0) \<and> (d' < 0 \<longrightarrow> a = Some 1)"
  proof (intro allI impI)
    fix p' d' :: real
    assume h: "p = Some p' \<and> d = Some d' \<and> 0 < p'"
    then have a: "a = Some (min (max (1 - d' / p') 0) 1)" using assms by simp
    have "p' < d' \<longrightarrow> 1 - d' / p' < 0" using h by (simp add: field_simps)
    moreover have "d' < 0 \<longrightarrow> 1 < 1 - d' / p'" using h by (simp add: field_simps)
    ultimately show "(p' < d' \<longrightarrow> a = Some 0) \<and> (d' < 0 \<longrightarrow> a = Some 1)"
      using a by auto
  qed
  from bounds clamp show ?thesis by blast
qed

section \<open>The example frames, evaluated\<close>

lemma aggregable_B: "aggregable scenario_B [''Machine'']"
  by (simp add: aggregable_def names_def is_float_def reserved_labels_def scenario_B_def)

lemma labels_B: "labels_of scenario_B [''Machine''] = [Some [S ''M1''], Some [S ''M1''], Some [S ''M2'']]"
  by (simp add: labels_of_def row_labels_def the_col_def scenario_B_def eval_nat_numeral)

lemma groups_B: "groups_of scenario_B [''Machine''] = [[S ''M1''], [S ''M2'']]"
  by (simp add: groups_of_def labels_B group_labels_def sort_labels_def)

lemma members_B_prod:
  "members scenario_B [''Machine''] ''Production per unit'' [S ''M1''] = [Some 0, Some 0]"
  unfolding members_def labels_B by (simp add: group_values_def floats_def scenario_B_def)

lemma aggregable_A: "aggregable scenario_A [''Machine'']"
  by (simp add: aggregable_def names_def is_float_def reserved_labels_def scenario_A_def)

lemma labels_A: "labels_of scenario_A [''Machine''] = [Some [S ''M1''], Some [S ''M1'']]"
  by (simp add: labels_of_def row_labels_def the_col_def scenario_A_def eval_nat_numeral)

lemma groups_A: "groups_of scenario_A [''Machine''] = [[S ''M1'']]"
  by (simp add: groups_of_def labels_A group_labels_def sort_labels_def)

lemma grouped_A:
  "grouped_frame scenario_A [''Machine''] =
     \<lparr>nrows = 1, columns =
        [(''Machine'', TextCol [Some ''M1'']),
         (''Production_units'', FloatCol [Some 150]),
         (''Good_units'', FloatCol [Some 140]),
         (''Reject_units'', FloatCol [Some 10]),
         (''Downtime'', FloatCol [Some 3]),
         (''Planned_hours'', FloatCol [Some 48]),
         (''Quality'', FloatCol [Some (14 / 15)]),
         (''Availability'', FloatCol [Some (15 / 16)]),
         (''Performance'', FloatCol [Some (17 / 20)]),
         (''OEE'', FloatCol [Some (119 / 160)])]\<rparr>"
  unfolding grouped_frame_def Let_def groups_A key_columns_def group_sums_def group_means_def
        members_def labels_A
  by (simp add: the_col_def group_values_def floats_def nansum_def nanmean_def
        quality_of_def availability_of_def oee_of_def scenario_A_def)

section \<open>Well-formed frames, missing keys, load_data\<close>

lemma wf_col_len:
  "wf_frame df \<Longrightarrow> map_of (columns df) c = Some col \<Longrightarrow> col_len col = nrows df"
  by (auto simp: wf_frame_def list_all_iff dest!: map_of_SomeD)

lemma wf_floats: "wf_frame df \<Longrightarrow> is_float df c \<Longrightarrow> length (floats df c) = nrows df"
  by (auto simp: is_float_def floats_def split: option.splits column.splits dest: wf_col_len)

lemma wf_getitem: "wf_frame df \<Longrightarrow> getitem df c = Inr col \<Longrightarrow> col_len col = nrows df"
  by (auto simp: getitem_def split: option.splits dest: wf_col_len)

lemma length_cells [simp]: "length (cells col) = col_len col"
  by (cases col) simp_all

lemma wf_the_col: "wf_frame df \<Longrightarrow> k \<in> set (names df) \<Longrightarrow> col_len (the_col df k) = nrows df"
proof -
  assume wf: "wf_frame df" and k: "k \<in> set (names df)"
  from k obtain col where "map_of (columns df) k = Some col"
    by (metis names_def map_of_eq_None_iff not_Some_eq set_map)
  then show ?thesis using wf by (simp add: the_col_def wf_col_len)
qed

lemma length_labels_of:
  assumes "wf_frame df" "list_all (\<lambda>k. k \<in> set (names df)) gc"
  shows "length (labels_of df gc) = nrows df"
proof -
  have "list_all (\<lambda>c. length c = nrows df) (map cells (map (the_col df) gc))"
    using assms by (auto simp: list_all_iff wf_the_col)
  then show ?thesis by (simp add: labels_of_def row_labels_def length_row_cells)
qed

lemma members_nonempty:
  assumes "wf_frame df" "list_all (\<lambda>k. k \<in> set (names df)) gc" "is_float df c"
      and "g \<in> set (groups_of df gc)"
  shows "members df gc c g \<noteq> []"
proof -
  let ?ks = "labels_of df gc" and ?xs = "floats df c"
  have len: "length ?ks = length ?xs"
    using assms by (simp add: length_labels_of wf_floats)
  have "Some g \<in> set ?ks" using assms(4) by (simp add: groups_of_def set_group_labels)
  then obtain i where i: "i < length ?ks" "?ks ! i = Some g" by (auto simp: in_set_conv_nth)
  then have "(?ks ! i, ?xs ! i) \<in> set (zip ?ks ?xs)"
    using len by (metis in_set_zip fst_conv snd_conv)
  then have "(Some g, ?xs ! i) \<in> set (filter (\<lambda>(k, x). k = Some g) (zip ?ks ?xs))"
    using i(2) by simp
  then show ?thesis unfolding members_def group_values_def
    by (metis (no_types, lifting) empty_iff list.map_disc_iff list.set(1))
qed

lemma present_all_zero: "\<forall>x\<in>set xs. x = Some 0 \<Longrightarrow> sum_list (present xs) = (0::real)"
  by (induction xs rule: present.induct) auto

lemma nansum_all_zero: "\<forall>x\<in>set xs. x = Some 0 \<Longrightarrow> nansum xs = 0"
  by (simp add: nansum_def present_all_zero)

lemma present_defined: "xs \<noteq> [] \<Longrightarrow> \<forall>x\<in>set xs. x \<noteq> None \<Longrightarrow> present xs \<noteq> []"
  by (induction xs rule: present.induct) auto

lemma nanmean_defined: "xs \<noteq> [] \<Longrightarrow> \<forall>x\<in>set xs. x \<noteq> None \<Longrightarrow> nanmean xs \<noteq> None"
  by (simp add: nanmean_def present_defined)



lemma length_oee_of [simp]: "length (oee_of a p q) = min (min (length a) (length p)) (length q)"
  by (simp add: oee_of_def)


lemma groupby_missing_key:
  assumes "\<not> list_all (\<lambda>k. k \<in> set (names df)) keys" "length keys \<noteq> nrows df"
  shows "groupby df keys = Inl KeyError"
proof -
  have "keys \<noteq> []" using assms(1) by auto
  then show ?thesis using assms by (simp add: groupby_def)
qed

lemma aggregate_oee_missing:
  assumes "\<not> list_all (\<lambda>k. k \<in> set (names df)) keys" "length keys \<noteq> nrows df"
  shows "aggregate_oee df keys = Inl KeyError"
  by (simp add: aggregate_oee_def groupby_agg_def groupby_missing_key[OF assms])

lemma load_data_ok:
  assumes "is_float df0 ''Production per unit''" "is_float df0 ''Reject per unit''"
      and "getitem df0 ''Performance %'' = Inr perf" "getitem df0 ''Working days'' = Inr days"
  shows "load_data df0 =
      Inr (setitem (setitem (setitem (setitem df0
         ''Good units'' (FloatCol (map2 fsub (floats df0 ''Production per unit'')
                                             (floats df0 ''Reject per unit''))))
         ''Quality'' (FloatCol (quality_of (map2 fsub (floats df0 ''Production per unit'')
                                                      (floats df0 ''Reject per unit''))
                                           (floats df0 ''Production per unit''))))
         ''Performance'' perf)
         ''Planned days'' days)"
  using assms(3,4) is_floatD[OF assms(1)] is_floatD[OF assms(2)]
  unfolding load_data_def
  by (simp add: getitem_setitem Let_def quality_of_def)

section \<open>The KPI block\<close>

lemma series_sum_Inr: "series_sum col = Inr r \<longleftrightarrow> (\<exists>xs. col = FloatCol xs \<and> r = nansum xs)"
  by (cases col) auto

lemma floats_getitem: "getitem df c = Inr (FloatCol xs) \<Longrightarrow> floats df c = xs"
  by (auto simp: getitem_def floats_def split: option.splits)

lemma np_average_Inr:
  "np_average a w = Inr r \<Longrightarrow> \<exists>xs ws. a = FloatCol xs \<and> w = FloatCol ws \<and> r = weighted_mean xs ws"
  by (cases a; cases w) (auto simp: weighted_mean_def split: if_splits option.splits)

lemma main_kpis_performance:
  assumes "main_kpis df = Inr k"
  shows "total_prod k = nansum (floats df ''Production per unit'') \<and>
         overall_performance k =
           (if 0 < total_prod k
            then weighted_mean (floats df ''Performance'') (floats df ''Production per unit'')
            else None)"
  using assms unfolding main_kpis_def
  by (auto simp: and_then_eq_Inr series_sum_Inr Let_def floats_getitem
           split: if_splits dest!: np_average_Inr)

lemma on_cells_grouped:
  assumes "aggregable df gc"
  shows "on_cells (grouped_frame df gc) gc = map (map Some) (groups_of df gc)"
proof -
  let ?kc = "key_columns df gc"
  obtain X where gf: "grouped_frame df gc = \<lparr>nrows = length (groups_of df gc), columns = ?kc @ X\<rparr>"
    by (simp add: grouped_frame_def Let_def)
  have d: "distinct (map fst ?kc)" using aggregable_keys(2)[OF assms] by simp
  have "map (\<lambda>k. cells (the_col (grouped_frame df gc) k)) gc
          = map cells (map (the_col \<lparr>nrows = length (groups_of df gc), columns = ?kc @ X\<rparr>) (map fst ?kc))"
    by (simp add: gf comp_def)
  also have "\<dots> = map cells (map snd ?kc)" using the_col_keys[OF d] by simp
  also have "\<dots> = map (cells \<circ> snd) ?kc" by simp
  finally show ?thesis by (simp add: on_cells_def key_cells)
qed

section \<open>Claims about add_oee_metrics\<close>

lemma names_setitem: "set (names (setitem df c col)) = insert c (set (names df))"
  by (simp add: names_def setitem_def dom_update)

lemma names_with_metrics:
  "set (names (with_metrics df days down perf qual h))
     = set (names df) \<union> {''Planned hours'', ''Availability'', ''OEE''}"
  by (auto simp: with_metrics_def names_setitem)

text \<open>
  Claim C7. Applying \<^verbatim>\<open>add_oee_metrics\<close> to its own result, with the same hours per
  day, succeeds and returns a frame identical to that result: the operation is
  idempotent, for every frame and every value of the parameter.
\<close>

theorem add_oee_metrics_idempotent:
  assumes "add_oee_metrics s a hours_per_day = Inr (s1, a1)"
  shows "\<exists>s2 a2. add_oee_metrics s1 a1 hours_per_day = Inr (s2, a2) \<and> frames s2 a2 = frames s1 a1"
  using assms by (rule add_oee_metrics_twice)

lemma scenario_A_metrics:
  "\<exists>s'. add_oee_metrics (store_with scenario_A_loaded) 0 24 = Inr (s', 1) \<and>
        frames s' 0 = scenario_A_loaded \<and> frames s' 1 = scenario_A"
proof -
  let ?S = "store_with scenario_A_loaded"
  have f0: "frames ?S 0 = scenario_A_loaded" and n: "next_addr ?S = 1"
    by (simp_all add: store_with_def)
  have g: "getitem (frames ?S 0) ''Planned days'' = Inr (FloatCol [Some 1, Some 1])"
          "getitem (frames ?S 0) ''downtime'' = Inr (FloatCol [Some 2, Some 1])"
          "getitem (frames ?S 0) ''Performance'' = Inr (FloatCol [Some (9 / 10), Some (8 / 10)])"
          "getitem (frames ?S 0) ''Quality'' = Inr (FloatCol [Some (9 / 10), Some 1])"
    unfolding f0 by (simp_all add: scenario_A_loaded_def getitem_def)
  have w: "with_metrics scenario_A_loaded [Some 1, Some 1] [Some 2, Some 1]
             [Some (9 / 10), Some (8 / 10)] [Some (9 / 10), Some 1] 24 = scenario_A"
    by (simp add: with_metrics_def setitem_def scenario_A_loaded_def scenario_A_def
          planned_hours_of_def availability_of_def oee_of_def)
  show ?thesis
    unfolding add_oee_metrics_ok[OF g] f0 w n by (simp add: f0)
qed

theorem add_oee_metrics_idempotent_witness:
  "\<exists>s1 s2 a2. add_oee_metrics (store_with scenario_A_loaded) 0 24 = Inr (s1, 1) \<and>
     frames s1 1 = scenario_A \<and>
     add_oee_metrics s1 1 24 = Inr (s2, a2) \<and> frames s2 a2 = frames s1 1"
proof -
  from scenario_A_metrics obtain s1 where
    h: "add_oee_metrics (store_with scenario_A_loaded) 0 24 = Inr (s1, 1)"
    and f: "frames s1 1 = scenario_A" by blast
  from add_oee_metrics_idempotent[OF h] show ?thesis using h f by blast
qed

text \<open>
  Claim C10. \<^verbatim>\<open>add_oee_metrics\<close> leaves the frame it is given, and every other frame
  of the store, as it was: it returns a new frame. The new frame has the rows of the
  input; every column other than \<^verbatim>\<open>Planned hours\<close>, \<^verbatim>\<open>Availability\<close> and \<^verbatim>\<open>OEE\<close> is
  present in it exactly when it is present in the input, with the same cells; and
  its labels are those of the input and these three.
\<close>

theorem add_oee_metrics_frame:
  assumes "add_oee_metrics s a hours_per_day = Inr (s', a')" and "a < next_addr s"
  shows "a' \<noteq> a \<and>
         (\<forall>b. b \<noteq> a' \<longrightarrow> frames s' b = frames s b) \<and>
         nrows (frames s' a') = nrows (frames s a) \<and>
         (\<forall>c. c \<notin> {''Planned hours'', ''Availability'', ''OEE''} \<longrightarrow>
               getitem (frames s' a') c = getitem (frames s a) c) \<and>
         set (names (frames s' a')) =
           set (names (frames s a)) \<union> {''Planned hours'', ''Availability'', ''OEE''}"
proof -
  from add_oee_metrics_Inr[OF assms(1)] obtain days down perf qual where
        a': "a' = next_addr s"
    and s': "s' = s\<lparr>frames := (frames s)(next_addr s := with_metrics (frames s a) days down perf qual hours_per_day),
                     next_addr := Suc (next_addr s)\<rparr>"
    by blast
  have f: "frames s' a' = with_metrics (frames s a) days down perf qual hours_per_day"
    by (simp add: s' a')
  have "a' \<noteq> a" using assms(2) a' by simp
  moreover have "\<forall>b. b \<noteq> a' \<longrightarrow> frames s' b = frames s b" by (simp add: s' a')
  moreover have "nrows (frames s' a') = nrows (frames s a)" by (simp add: f)
  moreover have "\<forall>c. c \<notin> {''Planned hours'', ''Availability'', ''OEE''} \<longrightarrow>
               getitem (frames s' a') c = getitem (frames s a) c"
    by (simp add: f getitem_with_metrics)
  moreover have "set (names (frames s' a')) =
           set (names (frames s a)) \<union> {''Planned hours'', ''Availability'', ''OEE''}"
    by (simp add: f names_with_metrics)
  ultimately show ?thesis by blast
qed

theorem add_oee_metrics_frame_witness:
  "(0::nat) < next_addr (store_with scenario_A_loaded) \<and>
   (\<exists>s'. add_oee_metrics (store_with scenario_A_loaded) 0 24 = Inr (s', 1) \<and>
     frames s' 0 = frames (store_with scenario_A_loaded) 0 \<and> frames s' 1 = scenario_A \<and>
     getitem (frames s' 1) ''Machine'' = getitem (frames (store_with scenario_A_loaded) 0) ''Machine'' \<and>
     getitem (frames s' 1) ''Quality'' = getitem (frames (store_with scenario_A_loaded) 0) ''Quality'')"
proof -
  have a: "(0::nat) < next_addr (store_with scenario_A_loaded)" by (simp add: store_with_def)
  from scenario_A_metrics obtain s' where
    h: "add_oee_metrics (store_with scenario_A_loaded) 0 24 = Inr (s', 1)"
    and f: "frames s' 1 = scenario_A" by blast
  from add_oee_metrics_frame[OF h a] show ?thesis using a h f by auto
qed

section \<open>Claim about the quality of a group\<close>

text \<open>
  Claim C3. For every frame that \<^verbatim>\<open>aggregate_oee\<close> can aggregate and every group whose
  production sums to a positive number, the \<^verbatim>\<open>Quality\<close> of the row of that group is the
  sum of the \<^verbatim>\<open>Good units\<close> of its records divided by the sum of their
  \<^verbatim>\<open>Production per unit\<close> (sums skip NaN, as pandas does): a ratio of sums. The
  witness shows a frame where the mean of the ratios of the records is a different
  number.
\<close>

theorem group_quality_ratio_of_sums:
  assumes "aggregable df group_cols"
      and "j < length (groups_of df group_cols)"
      and "0 < nansum (members df group_cols ''Production per unit'' (groups_of df group_cols ! j))"
  shows "\<exists>out q. aggregate_oee df group_cols = Inr out \<and>
           nrows out = length (groups_of df group_cols) \<and>
           on_cells out group_cols ! j = map Some (groups_of df group_cols ! j) \<and>
           getitem out ''Quality'' = Inr (FloatCol q) \<and> length q = nrows out \<and>
           q ! j = Some (nansum (members df group_cols ''Good units'' (groups_of df group_cols ! j)) /
                         nansum (members df group_cols ''Production per unit''
                                   (groups_of df group_cols ! j)))"
proof -
  let ?q = "quality_of (group_sums df group_cols ''Good units'')
                       (group_sums df group_cols ''Production per unit'')"
  have "?q ! j = Some (nansum (members df group_cols ''Good units'' (groups_of df group_cols ! j)) /
                       nansum (members df group_cols ''Production per unit''
                                 (groups_of df group_cols ! j)))"
    using assms(2,3) by (simp add: quality_of_nth group_sums_nth)
  moreover have "on_cells (grouped_frame df group_cols) group_cols ! j
                   = map Some (groups_of df group_cols ! j)"
    using assms(2) by (simp add: on_cells_grouped[OF assms(1)])
  ultimately show ?thesis
    using aggregate_oee_ok[OF assms(1)] getitem_grouped(5)[OF assms(1)] by simp
qed

theorem group_quality_ratio_of_sums_witness:
  "aggregable scenario_A [''Machine''] \<and> (0::nat) < length (groups_of scenario_A [''Machine'']) \<and>
   members scenario_A [''Machine''] ''Production per unit'' (groups_of scenario_A [''Machine''] ! 0)
     = [Some 100, Some 50] \<and>
   members scenario_A [''Machine''] ''Good units'' (groups_of scenario_A [''Machine''] ! 0)
     = [Some 90, Some 50] \<and>
   (\<exists>out q. aggregate_oee scenario_A [''Machine''] = Inr out \<and> nrows out = 1 \<and>
      on_cells out [''Machine''] ! 0 = [Some (S ''M1'')] \<and>
      getitem out ''Quality'' = Inr (FloatCol q) \<and> length q = nrows out \<and>
      q ! 0 = Some (14 / 15)) \<and>
   nanmean (floats scenario_A ''Quality'') = Some (19 / 20)"
proof -
  have a: "aggregable scenario_A [''Machine'']" by (rule aggregable_A)
  have j: "(0::nat) < length (groups_of scenario_A [''Machine''])" by (simp add: groups_A)
  have mp: "members scenario_A [''Machine''] ''Production per unit'' (groups_of scenario_A [''Machine''] ! 0)
              = [Some 100, Some 50]"
    unfolding members_def labels_A groups_A by (simp add: group_values_def floats_def scenario_A_def)
  have mg: "members scenario_A [''Machine''] ''Good units'' (groups_of scenario_A [''Machine''] ! 0)
              = [Some 90, Some 50]"
    unfolding members_def labels_A groups_A by (simp add: group_values_def floats_def scenario_A_def)
  have p: "0 < nansum (members scenario_A [''Machine''] ''Production per unit''
                         (groups_of scenario_A [''Machine''] ! 0))"
    unfolding mp by (simp add: nansum_def)
  have m: "nanmean (floats scenario_A ''Quality'') = Some (19 / 20)"
    by (simp add: floats_def scenario_A_def nanmean_def)
  from group_quality_ratio_of_sums[OF a j p]
  show ?thesis using a j m unfolding mp mg by (simp add: groups_A nansum_def)
qed

section \<open>Claims about clamping, undefined metrics, errors and the two performance paths\<close>

lemma scenario_B_metrics:
  "\<exists>s'. add_oee_metrics (store_with scenario_B_loaded) 0 24 = Inr (s', 1) \<and>
        frames s' 0 = scenario_B_loaded \<and> frames s' 1 = scenario_B"
proof -
  let ?S = "store_with scenario_B_loaded"
  have f0: "frames ?S 0 = scenario_B_loaded" and n: "next_addr ?S = 1"
    by (simp_all add: store_with_def)
  have g: "getitem (frames ?S 0) ''Planned days'' = Inr (FloatCol [Some 1, Some 1, Some 1])"
          "getitem (frames ?S 0) ''downtime'' = Inr (FloatCol [Some 0, Some 60, Some (- 6)])"
          "getitem (frames ?S 0) ''Performance'' = Inr (FloatCol [Some (1 / 2), Some (7 / 10), Some (9 / 10)])"
          "getitem (frames ?S 0) ''Quality'' = Inr (FloatCol [None, None, Some (9 / 10)])"
    unfolding f0 by (simp_all add: scenario_B_loaded_def getitem_def)
  have w: "with_metrics scenario_B_loaded [Some 1, Some 1, Some 1] [Some 0, Some 60, Some (- 6)]
             [Some (1 / 2), Some (7 / 10), Some (9 / 10)] [None, None, Some (9 / 10)] 24 = scenario_B"
    by (simp add: with_metrics_def setitem_def scenario_B_loaded_def scenario_B_def
          planned_hours_of_def availability_of_def oee_of_def)
  show ?thesis
    unfolding add_oee_metrics_ok[OF g] f0 w n by (simp add: f0)
qed

lemma wf_scenario_B_loaded: "wf_frame scenario_B_loaded"
  by (simp add: wf_frame_def scenario_B_loaded_def)

lemma wf_scenario_B: "wf_frame scenario_B"
  by (simp add: wf_frame_def scenario_B_def)

lemma grouped_B:
  "grouped_frame scenario_B [''Machine''] =
     \<lparr>nrows = 2, columns =
        [(''Machine'', TextCol [Some ''M1'', Some ''M2'']),
         (''Production_units'', FloatCol [Some 0, Some 10]),
         (''Good_units'', FloatCol [Some 0, Some 9]),
         (''Reject_units'', FloatCol [Some 0, Some 1]),
         (''Downtime'', FloatCol [Some 60, Some (- 6)]),
         (''Planned_hours'', FloatCol [Some 48, Some 24]),
         (''Quality'', FloatCol [None, Some (9 / 10)]),
         (''Availability'', FloatCol [Some 0, Some 1]),
         (''Performance'', FloatCol [Some (3 / 5), Some (9 / 10)]),
         (''OEE'', FloatCol [None, Some (81 / 100)])]\<rparr>"
  unfolding grouped_frame_def Let_def groups_B key_columns_def group_sums_def group_means_def
        members_def labels_B
  by (simp add: the_col_def group_values_def floats_def nansum_def nanmean_def
        quality_of_def availability_of_def oee_of_def scenario_B_def)

lemma aggregate_B: "aggregate_oee scenario_B [''Machine''] = Inr (grouped_frame scenario_B [''Machine''])"
  by (rule aggregate_oee_ok[OF aggregable_B])

text \<open>
  Claim C5. Per record, after \<^verbatim>\<open>add_oee_metrics\<close> on a frame whose columns have one cell
  for each row: every \<^verbatim>\<open>Availability\<close> that is defined lies in [0, 1]; where the planned
  hours are positive, a downtime above the planned hours gives availability 0 and a
  negative downtime gives availability 1 (so at most 1). Per group, the same holds
  of the row of every group in the result of \<^verbatim>\<open>aggregate_oee\<close>, with the sums of
  planned hours and of downtime over the records of the group.
\<close>

theorem availability_clamped:
  "(add_oee_metrics s a hours_per_day = Inr (s', a') \<and> wf_frame (frames s a) \<longrightarrow>
      (\<exists>ph down av.
          getitem (frames s' a') ''Planned hours'' = Inr (FloatCol ph) \<and>
          getitem (frames s' a') ''downtime'' = Inr (FloatCol down) \<and>
          getitem (frames s' a') ''Availability'' = Inr (FloatCol av) \<and>
          length av = nrows (frames s a) \<and>
          (\<forall>i < length av.
              (\<forall>x. av ! i = Some x \<longrightarrow> 0 \<le> x \<and> x \<le> 1) \<and>
              (\<forall>p d. ph ! i = Some p \<and> down ! i = Some d \<and> 0 < p \<longrightarrow>
                     (p < d \<longrightarrow> av ! i = Some 0) \<and> (d < 0 \<longrightarrow> av ! i = Some 1))))) \<and>
   (aggregable df group_cols \<longrightarrow>
      (\<exists>out av.
          aggregate_oee df group_cols = Inr out \<and>
          nrows out = length (groups_of df group_cols) \<and>
          getitem out ''Planned_hours'' = Inr (FloatCol (group_sums df group_cols ''Planned hours'')) \<and>
          getitem out ''Downtime'' = Inr (FloatCol (group_sums df group_cols ''downtime'')) \<and>
          getitem out ''Availability'' = Inr (FloatCol av) \<and> length av = nrows out \<and>
          (\<forall>j < nrows out.
              (\<forall>x. av ! j = Some x \<longrightarrow> 0 \<le> x \<and> x \<le> 1) \<and>
              (\<forall>p d. group_sums df group_cols ''Planned hours'' ! j = Some p \<and>
                     group_sums df group_cols ''downtime'' ! j = Some d \<and> 0 < p \<longrightarrow>
                     (p < d \<longrightarrow> av ! j = Some 0) \<and> (d < 0 \<longrightarrow> av ! j = Some 1)))))"
proof (intro conjI impI)
  assume h: "add_oee_metrics s a hours_per_day = Inr (s', a') \<and> wf_frame (frames s a)"
  from add_oee_metrics_Inr[of s a hours_per_day s' a'] h obtain days down perf qual where
        g: "getitem (frames s a) ''Planned days'' = Inr (FloatCol days)"
           "getitem (frames s a) ''downtime'' = Inr (FloatCol down)"
    and a': "a' = next_addr s"
    and s': "s' = s\<lparr>frames := (frames s)(next_addr s := with_metrics (frames s a) days down perf qual hours_per_day),
                     next_addr := Suc (next_addr s)\<rparr>"
    by blast
  let ?ph = "planned_hours_of days hours_per_day"
  let ?av = "availability_of down ?ph"
  have f: "frames s' a' = with_metrics (frames s a) days down perf qual hours_per_day"
    by (simp add: s' a')
  have len: "length days = nrows (frames s a)" "length down = nrows (frames s a)"
    using h g wf_getitem[of "frames s a"] by fastforce+
  have lph: "length ?ph = nrows (frames s a)" by (simp add: planned_hours_of_def len)
  have lav: "length ?av = nrows (frames s a)" by (simp add: lph len)
  have cell: "\<forall>i < length ?av.
              (\<forall>x. ?av ! i = Some x \<longrightarrow> 0 \<le> x \<and> x \<le> 1) \<and>
              (\<forall>p d. ?ph ! i = Some p \<and> down ! i = Some d \<and> 0 < p \<longrightarrow>
                     (p < d \<longrightarrow> ?av ! i = Some 0) \<and> (d < 0 \<longrightarrow> ?av ! i = Some 1))"
  proof (intro allI impI)
    fix i assume "i < length ?av"
    then have "?av ! i = fclip 0 1 (if gt0 (?ph ! i) then fsub (Some 1) (fdiv (down ! i) (?ph ! i)) else None)"
      using lav lph len by (simp add: availability_of_nth)
    then show "(\<forall>x. ?av ! i = Some x \<longrightarrow> 0 \<le> x \<and> x \<le> 1) \<and>
              (\<forall>p d. ?ph ! i = Some p \<and> down ! i = Some d \<and> 0 < p \<longrightarrow>
                     (p < d \<longrightarrow> ?av ! i = Some 0) \<and> (d < 0 \<longrightarrow> ?av ! i = Some 1))"
      by (rule availability_cell)
  qed
  have "getitem (frames s' a') ''Planned hours'' = Inr (FloatCol ?ph)"
       "getitem (frames s' a') ''downtime'' = Inr (FloatCol down)"
       "getitem (frames s' a') ''Availability'' = Inr (FloatCol ?av)"
    using g by (simp_all add: f getitem_with_metrics)
  with lav cell
  show "\<exists>ph down av.
          getitem (frames s' a') ''Planned hours'' = Inr (FloatCol ph) \<and>
          getitem (frames s' a') ''downtime'' = Inr (FloatCol down) \<and>
          getitem (frames s' a') ''Availability'' = Inr (FloatCol av) \<and>
          length av = nrows (frames s a) \<and>
          (\<forall>i < length av.
              (\<forall>x. av ! i = Some x \<longrightarrow> 0 \<le> x \<and> x \<le> 1) \<and>
              (\<forall>p d. ph ! i = Some p \<and> down ! i = Some d \<and> 0 < p \<longrightarrow>
                     (p < d \<longrightarrow> av ! i = Some 0) \<and> (d < 0 \<longrightarrow> av ! i = Some 1)))"
    by blast
next
  assume ag: "aggregable df group_cols"
  let ?ph = "group_sums df group_cols ''Planned hours''"
  let ?down = "group_sums df group_cols ''downtime''"
  let ?av = "availability_of ?down ?ph"
  have lav: "length ?av = length (groups_of df group_cols)" by simp
  have cell: "\<forall>j < length (groups_of df group_cols).
              (\<forall>x. ?av ! j = Some x \<longrightarrow> 0 \<le> x \<and> x \<le> 1) \<and>
              (\<forall>p d. ?ph ! j = Some p \<and> ?down ! j = Some d \<and> 0 < p \<longrightarrow>
                     (p < d \<longrightarrow> ?av ! j = Some 0) \<and> (d < 0 \<longrightarrow> ?av ! j = Some 1))"
  proof (intro allI impI)
    fix j assume "j < length (groups_of df group_cols)"
    then have "?av ! j = fclip 0 1 (if gt0 (?ph ! j) then fsub (Some 1) (fdiv (?down ! j) (?ph ! j)) else None)"
      by (simp add: availability_of_nth)
    then show "(\<forall>x. ?av ! j = Some x \<longrightarrow> 0 \<le> x \<and> x \<le> 1) \<and>
              (\<forall>p d. ?ph ! j = Some p \<and> ?down ! j = Some d \<and> 0 < p \<longrightarrow>
                     (p < d \<longrightarrow> ?av ! j = Some 0) \<and> (d < 0 \<longrightarrow> ?av ! j = Some 1))"
      by (rule availability_cell)
  qed
  show "\<exists>out av.
          aggregate_oee df group_cols = Inr out \<and>
          nrows out = length (groups_of df group_cols) \<and>
          getitem out ''Planned_hours'' = Inr (FloatCol (group_sums df group_cols ''Planned hours'')) \<and>
          getitem out ''Downtime'' = Inr (FloatCol (group_sums df group_cols ''downtime'')) \<and>
          getitem out ''Availability'' = Inr (FloatCol av) \<and> length av = nrows out \<and>
          (\<forall>j < nrows out.
              (\<forall>x. av ! j = Some x \<longrightarrow> 0 \<le> x \<and> x \<le> 1) \<and>
              (\<forall>p d. group_sums df group_cols ''Planned hours'' ! j = Some p \<and>
                     group_sums df group_cols ''downtime'' ! j = Some d \<and> 0 < p \<longrightarrow>
                     (p < d \<longrightarrow> av ! j = Some 0) \<and> (d < 0 \<longrightarrow> av ! j = Some 1)))"
  proof (intro exI[of _ "grouped_frame df group_cols"] exI[of _ ?av] conjI)
    show "aggregate_oee df group_cols = Inr (grouped_frame df group_cols)"
      by (rule aggregate_oee_ok[OF ag])
    show "nrows (grouped_frame df group_cols) = length (groups_of df group_cols)" by simp
    show "getitem (grouped_frame df group_cols) ''Planned_hours'' = Inr (FloatCol ?ph)"
      by (rule getitem_grouped(4)[OF ag])
    show "getitem (grouped_frame df group_cols) ''Downtime'' = Inr (FloatCol ?down)"
      by (rule getitem_grouped(3)[OF ag])
    show "getitem (grouped_frame df group_cols) ''Availability'' = Inr (FloatCol ?av)"
      by (rule getitem_grouped(6)[OF ag])
    show "length ?av = nrows (grouped_frame df group_cols)" by simp
    show "\<forall>j < nrows (grouped_frame df group_cols).
              (\<forall>x. ?av ! j = Some x \<longrightarrow> 0 \<le> x \<and> x \<le> 1) \<and>
              (\<forall>p d. ?ph ! j = Some p \<and> ?down ! j = Some d \<and> 0 < p \<longrightarrow>
                     (p < d \<longrightarrow> ?av ! j = Some 0) \<and> (d < 0 \<longrightarrow> ?av ! j = Some 1))"
      using cell unfolding nrows_grouped .
  qed
qed

theorem availability_clamped_witness:
  "wf_frame (frames (store_with scenario_B_loaded) 0) \<and> aggregable scenario_B [''Machine''] \<and>
   (\<exists>s'. add_oee_metrics (store_with scenario_B_loaded) 0 24 = Inr (s', 1) \<and>
      getitem (frames s' 1) ''Planned hours'' = Inr (FloatCol [Some 24, Some 24, Some 24]) \<and>
      getitem (frames s' 1) ''downtime'' = Inr (FloatCol [Some 0, Some 60, Some (- 6)]) \<and>
      getitem (frames s' 1) ''Availability'' = Inr (FloatCol [Some 1, Some 0, Some 1])) \<and>
   (\<exists>out. aggregate_oee scenario_B [''Machine''] = Inr out \<and> nrows out = 2 \<and>
      getitem out ''Planned_hours'' = Inr (FloatCol [Some 48, Some 24]) \<and>
      getitem out ''Downtime'' = Inr (FloatCol [Some 60, Some (- 6)]) \<and>
      getitem out ''Availability'' = Inr (FloatCol [Some 0, Some 1]))"
proof -
  have wf: "wf_frame (frames (store_with scenario_B_loaded) 0)"
    by (simp add: store_with_def wf_scenario_B_loaded)
  from scenario_B_metrics obtain s' where
    h: "add_oee_metrics (store_with scenario_B_loaded) 0 24 = Inr (s', 1)"
    and f: "frames s' 1 = scenario_B" by blast
  have gB: "getitem scenario_B ''Planned hours'' = Inr (FloatCol [Some 24, Some 24, Some 24])"
           "getitem scenario_B ''downtime'' = Inr (FloatCol [Some 0, Some 60, Some (- 6)])"
           "getitem scenario_B ''Availability'' = Inr (FloatCol [Some 1, Some 0, Some 1])"
    by (simp_all add: getitem_def scenario_B_def)
  have gG: "nrows (grouped_frame scenario_B [''Machine'']) = 2"
           "getitem (grouped_frame scenario_B [''Machine'']) ''Planned_hours'' = Inr (FloatCol [Some 48, Some 24])"
           "getitem (grouped_frame scenario_B [''Machine'']) ''Downtime'' = Inr (FloatCol [Some 60, Some (- 6)])"
           "getitem (grouped_frame scenario_B [''Machine'']) ''Availability'' = Inr (FloatCol [Some 0, Some 1])"
    unfolding grouped_B by (simp_all add: getitem_def)
  from availability_clamped[of "store_with scenario_B_loaded" 0 24 s' 1 scenario_B "[''Machine'']"]
  have "\<exists>out av. aggregate_oee scenario_B [''Machine''] = Inr out \<and>
          nrows out = length (groups_of scenario_B [''Machine''])"
    using aggregable_B by blast
  then show ?thesis
    using wf aggregable_B h f gB gG aggregate_B by auto
qed

lemma names_getitem: "c \<in> set (names df) \<Longrightarrow> \<exists>col. getitem df c = Inr col"
proof -
  assume "c \<in> set (names df)"
  then have "map_of (columns df) c \<noteq> None"
    by (simp add: names_def map_of_eq_None_iff)
  then show ?thesis by (auto simp: getitem_def)
qed

lemma load_A: "load_data scenario_A_raw = Inr scenario_A_loaded"
proof -
  have "load_data scenario_A_raw = Inr (setitem (setitem (setitem (setitem scenario_A_raw
         ''Good units'' (FloatCol (map2 fsub (floats scenario_A_raw ''Production per unit'')
                                             (floats scenario_A_raw ''Reject per unit''))))
         ''Quality'' (FloatCol (quality_of (map2 fsub (floats scenario_A_raw ''Production per unit'')
                                                      (floats scenario_A_raw ''Reject per unit''))
                                           (floats scenario_A_raw ''Production per unit''))))
         ''Performance'' (FloatCol [Some (9 / 10), Some (8 / 10)]))
         ''Planned days'' (FloatCol [Some 1, Some 1]))"
    by (rule load_data_ok) (simp_all add: is_float_def getitem_def scenario_A_raw_def)
  also have "\<dots> = Inr scenario_A_loaded"
    by (simp add: setitem_def floats_def quality_of_def scenario_A_raw_def scenario_A_loaded_def)
  finally show ?thesis .
qed

lemma load_B: "load_data scenario_B_raw = Inr scenario_B_loaded"
proof -
  have "load_data scenario_B_raw = Inr (setitem (setitem (setitem (setitem scenario_B_raw
         ''Good units'' (FloatCol (map2 fsub (floats scenario_B_raw ''Production per unit'')
                                             (floats scenario_B_raw ''Reject per unit''))))
         ''Quality'' (FloatCol (quality_of (map2 fsub (floats scenario_B_raw ''Production per unit'')
                                                      (floats scenario_B_raw ''Reject per unit''))
                                           (floats scenario_B_raw ''Production per unit''))))
         ''Performance'' (FloatCol [Some (1 / 2), Some (7 / 10), Some (9 / 10)]))
         ''Planned days'' (FloatCol [Some 1, Some 1, Some 1]))"
    by (rule load_data_ok) (simp_all add: is_float_def getitem_def scenario_B_raw_def)
  also have "\<dots> = Inr scenario_B_loaded"
    by (simp add: setitem_def floats_def quality_of_def scenario_B_raw_def scenario_B_loaded_def)
  finally show ?thesis .
qed

text \<open>
  Claim C6. \<^verbatim>\<open>load_data\<close> succeeds on a frame that has the columns it reads, and gives
  every record whose \<^verbatim>\<open>Production per unit\<close> is 0 the \<^verbatim>\<open>Quality\<close> NaN: not zero, and no
  error. \<^verbatim>\<open>aggregate_oee\<close> succeeds too, and a group in which every record has production
  0 has the \<^verbatim>\<open>Quality\<close> NaN.
\<close>

theorem zero_production_quality_undefined:
  "(wf_frame df0 \<and> is_float df0 ''Production per unit'' \<and> is_float df0 ''Reject per unit'' \<and>
    ''Performance %'' \<in> set (names df0) \<and> ''Working days'' \<in> set (names df0) \<longrightarrow>
      (\<exists>df1 q. load_data df0 = Inr df1 \<and> nrows df1 = nrows df0 \<and>
          getitem df1 ''Production per unit'' = Inr (FloatCol (floats df0 ''Production per unit'')) \<and>
          getitem df1 ''Quality'' = Inr (FloatCol q) \<and> length q = nrows df0 \<and>
          (\<forall>i < nrows df0. floats df0 ''Production per unit'' ! i = Some 0 \<longrightarrow> q ! i = None))) \<and>
   (aggregable df group_cols \<and> j < length (groups_of df group_cols) \<and>
    (\<forall>x \<in> set (members df group_cols ''Production per unit'' (groups_of df group_cols ! j)).
        x = Some 0) \<longrightarrow>
      (\<exists>out q. aggregate_oee df group_cols = Inr out \<and>
          nrows out = length (groups_of df group_cols) \<and>
          getitem out ''Quality'' = Inr (FloatCol q) \<and> length q = nrows out \<and> q ! j = None))"
proof (intro conjI impI)
  assume h: "wf_frame df0 \<and> is_float df0 ''Production per unit'' \<and> is_float df0 ''Reject per unit'' \<and>
    ''Performance %'' \<in> set (names df0) \<and> ''Working days'' \<in> set (names df0)"
  let ?p = "floats df0 ''Production per unit''" and ?r = "floats df0 ''Reject per unit''"
  let ?q = "quality_of (map2 fsub ?p ?r) ?p"
  from h obtain perf days where
    g: "getitem df0 ''Performance %'' = Inr perf" "getitem df0 ''Working days'' = Inr days"
    using names_getitem[of "''Performance %''" df0] names_getitem[of "''Working days''" df0]
    by blast
  have len: "length ?p = nrows df0" "length ?r = nrows df0"
    using h by (simp_all add: wf_floats)
  have lq: "length ?q = nrows df0" by (simp add: len)
  have cell: "\<forall>i < nrows df0. ?p ! i = Some 0 \<longrightarrow> ?q ! i = None"
    by (simp add: quality_of_nth len)
  have ld: "load_data df0 = Inr (setitem (setitem (setitem (setitem df0
         ''Good units'' (FloatCol (map2 fsub ?p ?r)))
         ''Quality'' (FloatCol ?q)) ''Performance'' perf) ''Planned days'' days)"
    using h g by (simp add: load_data_ok)
  show "\<exists>df1 q. load_data df0 = Inr df1 \<and> nrows df1 = nrows df0 \<and>
          getitem df1 ''Production per unit'' = Inr (FloatCol ?p) \<and>
          getitem df1 ''Quality'' = Inr (FloatCol q) \<and> length q = nrows df0 \<and>
          (\<forall>i < nrows df0. ?p ! i = Some 0 \<longrightarrow> q ! i = None)"
    unfolding ld using h lq cell
    by (simp add: getitem_setitem is_floatD)
next
  assume h: "aggregable df group_cols \<and> j < length (groups_of df group_cols) \<and>
    (\<forall>x \<in> set (members df group_cols ''Production per unit'' (groups_of df group_cols ! j)).
        x = Some 0)"
  then have ag: "aggregable df group_cols" by simp
  let ?q = "quality_of (group_sums df group_cols ''Good units'')
                       (group_sums df group_cols ''Production per unit'')"
  have "nansum (members df group_cols ''Production per unit'' (groups_of df group_cols ! j)) = 0"
    using h by (simp add: nansum_all_zero)
  then have "?q ! j = None" using h by (simp add: quality_of_nth group_sums_nth)
  then show "\<exists>out q. aggregate_oee df group_cols = Inr out \<and>
          nrows out = length (groups_of df group_cols) \<and>
          getitem out ''Quality'' = Inr (FloatCol q) \<and> length q = nrows out \<and> q ! j = None"
    using aggregate_oee_ok[OF ag] getitem_grouped(5)[OF ag] by simp
qed

theorem zero_production_quality_undefined_witness:
  "wf_frame scenario_B_raw \<and> is_float scenario_B_raw ''Production per unit'' \<and>
   is_float scenario_B_raw ''Reject per unit'' \<and>
   ''Performance %'' \<in> set (names scenario_B_raw) \<and> ''Working days'' \<in> set (names scenario_B_raw) \<and>
   floats scenario_B_raw ''Production per unit'' = [Some 0, Some 0, Some 10] \<and>
   (\<exists>df1 q. load_data scenario_B_raw = Inr df1 \<and> getitem df1 ''Quality'' = Inr (FloatCol q) \<and>
      length q = 3 \<and> q ! 0 = None \<and> q ! 1 = None) \<and>
   aggregable scenario_B [''Machine''] \<and> (0::nat) < length (groups_of scenario_B [''Machine'']) \<and>
   members scenario_B [''Machine''] ''Production per unit'' (groups_of scenario_B [''Machine''] ! 0)
     = [Some 0, Some 0] \<and>
   (\<exists>out q. aggregate_oee scenario_B [''Machine''] = Inr out \<and> nrows out = 2 \<and>
      getitem out ''Quality'' = Inr (FloatCol q) \<and> length q = nrows out \<and> q ! 0 = None)"
proof -
  have r: "wf_frame scenario_B_raw \<and> is_float scenario_B_raw ''Production per unit'' \<and>
           is_float scenario_B_raw ''Reject per unit'' \<and>
           ''Performance %'' \<in> set (names scenario_B_raw) \<and> ''Working days'' \<in> set (names scenario_B_raw)"
    by (simp add: wf_frame_def is_float_def names_def scenario_B_raw_def)
  have p: "floats scenario_B_raw ''Production per unit'' = [Some 0, Some 0, Some 10]"
    by (simp add: floats_def scenario_B_raw_def)
  have n: "nrows scenario_B_raw = 3" by (simp add: scenario_B_raw_def)
  have m: "members scenario_B [''Machine''] ''Production per unit'' (groups_of scenario_B [''Machine''] ! 0)
             = [Some 0, Some 0]"
    by (simp add: groups_B members_B_prod)
  have g: "aggregable scenario_B [''Machine''] \<and> (0::nat) < length (groups_of scenario_B [''Machine'']) \<and>
           (\<forall>x \<in> set (members scenario_B [''Machine''] ''Production per unit''
                          (groups_of scenario_B [''Machine''] ! 0)). x = Some 0)"
    unfolding m by (simp add: aggregable_B groups_B)
  note t = zero_production_quality_undefined[of scenario_B_raw scenario_B "[''Machine'']" 0]
  from t[THEN conjunct1] r have 1: "\<exists>df1 q. load_data scenario_B_raw = Inr df1 \<and> getitem df1 ''Quality'' = Inr (FloatCol q) \<and>
      length q = 3 \<and> q ! 0 = None \<and> q ! 1 = None"
    unfolding p n by fastforce
  from t[THEN conjunct2] g have 2: "\<exists>out q. aggregate_oee scenario_B [''Machine''] = Inr out \<and> nrows out = 2 \<and>
      getitem out ''Quality'' = Inr (FloatCol q) \<and> length q = nrows out \<and> q ! 0 = None"
    by (simp add: groups_B numeral_2_eq_2)
  from r p 1 g m 2 show ?thesis by blast
qed



lemma kpis_Z:
  "main_kpis scenario_Z =
     Inr \<lparr>total_prod = 0, total_good = 0, total_reject = 0, total_downtime = 60,
          overall_quality = None, total_planned_hours = 48,
          overall_availability = Some 0, overall_performance = None, overall_oee = None\<rparr>"
  by (simp add: main_kpis_def getitem_def scenario_Z_def nansum_def Let_def)

text \<open>
  Claim C9. In a group where every record has production 0, the \<^verbatim>\<open>Performance\<close> that
  \<^verbatim>\<open>aggregate_oee\<close> reports is the plain (NaN-skipping) mean of the performance ratios of
  the records of the group, a number as soon as those ratios are numbers. The KPI block
  of \<^verbatim>\<open>main\<close>, on a frame where every record has production 0, has the total production 0
  and the overall performance NaN. The two paths differ.
\<close>

theorem zero_weight_performance:
  "(wf_frame df \<and> aggregable df group_cols \<and> j < length (groups_of df group_cols) \<and>
    (\<forall>x \<in> set (members df group_cols ''Production per unit'' (groups_of df group_cols ! j)).
        x = Some 0) \<longrightarrow>
      (\<exists>out p. aggregate_oee df group_cols = Inr out \<and>
          nrows out = length (groups_of df group_cols) \<and>
          getitem out ''Performance'' = Inr (FloatCol p) \<and> length p = nrows out \<and>
          p ! j = nanmean (members df group_cols ''Performance'' (groups_of df group_cols ! j)) \<and>
          ((\<forall>x \<in> set (members df group_cols ''Performance'' (groups_of df group_cols ! j)).
               x \<noteq> None) \<longrightarrow> p ! j \<noteq> None))) \<and>
   (main_kpis df' = Inr k \<and> (\<forall>x \<in> set (floats df' ''Production per unit''). x = Some 0) \<longrightarrow>
      total_prod k = 0 \<and> overall_performance k = None)"
proof (intro conjI impI)
  assume h: "wf_frame df \<and> aggregable df group_cols \<and> j < length (groups_of df group_cols) \<and>
    (\<forall>x \<in> set (members df group_cols ''Production per unit'' (groups_of df group_cols ! j)).
        x = Some 0)"
  then have ag: "aggregable df group_cols" and wf: "wf_frame df"
    and j: "j < length (groups_of df group_cols)" by simp_all
  let ?g = "groups_of df group_cols ! j"
  let ?p = "group_means df group_cols ''Performance''"
  have fl: "is_float df ''Performance''" using ag by (simp add: aggregable_def)
  have ne: "members df group_cols ''Performance'' ?g \<noteq> []"
    using wf aggregable_keys(3)[OF ag] fl j by (intro members_nonempty) simp_all
  have pj: "?p ! j = nanmean (members df group_cols ''Performance'' ?g)"
    using j by (simp add: group_means_nth)
  have df: "(\<forall>x \<in> set (members df group_cols ''Performance'' ?g). x \<noteq> None) \<longrightarrow> ?p ! j \<noteq> None"
    unfolding pj using ne by (simp add: nanmean_defined)
  show "\<exists>out p. aggregate_oee df group_cols = Inr out \<and>
          nrows out = length (groups_of df group_cols) \<and>
          getitem out ''Performance'' = Inr (FloatCol p) \<and> length p = nrows out \<and>
          p ! j = nanmean (members df group_cols ''Performance'' ?g) \<and>
          ((\<forall>x \<in> set (members df group_cols ''Performance'' ?g). x \<noteq> None) \<longrightarrow> p ! j \<noteq> None)"
  proof (intro exI[of _ "grouped_frame df group_cols"] exI[of _ ?p] conjI)
    show "aggregate_oee df group_cols = Inr (grouped_frame df group_cols)"
      by (rule aggregate_oee_ok[OF ag])
    show "nrows (grouped_frame df group_cols) = length (groups_of df group_cols)" by simp
    show "getitem (grouped_frame df group_cols) ''Performance'' = Inr (FloatCol ?p)"
      by (rule getitem_grouped(7)[OF ag])
    show "length ?p = nrows (grouped_frame df group_cols)" by simp
    show "?p ! j = nanmean (members df group_cols ''Performance'' ?g)" by (rule pj)
    show "(\<forall>x \<in> set (members df group_cols ''Performance'' ?g). x \<noteq> None) \<longrightarrow> ?p ! j \<noteq> None"
      by (rule df)
  qed
next
  assume h: "main_kpis df' = Inr k \<and> (\<forall>x \<in> set (floats df' ''Production per unit''). x = Some 0)"
  then have "nansum (floats df' ''Production per unit'') = 0" by (simp add: nansum_all_zero)
  then show "total_prod k = 0" and "overall_performance k = None"
    using main_kpis_performance[of df' k] h by simp_all
qed

theorem zero_weight_performance_witness:
  "wf_frame scenario_B \<and> aggregable scenario_B [''Machine''] \<and>
   (0::nat) < length (groups_of scenario_B [''Machine'']) \<and>
   members scenario_B [''Machine''] ''Production per unit'' (groups_of scenario_B [''Machine''] ! 0)
     = [Some 0, Some 0] \<and>
   members scenario_B [''Machine''] ''Performance'' (groups_of scenario_B [''Machine''] ! 0)
     = [Some (1 / 2), Some (7 / 10)] \<and>
   (\<exists>out p. aggregate_oee scenario_B [''Machine''] = Inr out \<and>
      getitem out ''Performance'' = Inr (FloatCol p) \<and> p ! 0 = Some (3 / 5)) \<and>
   floats scenario_Z ''Production per unit'' = [Some 0, Some 0] \<and>
   (\<exists>k. main_kpis scenario_Z = Inr k \<and> total_prod k = 0 \<and> overall_performance k = None)"
proof -
  have mp: "members scenario_B [''Machine''] ''Production per unit'' (groups_of scenario_B [''Machine''] ! 0)
             = [Some 0, Some 0]"
    by (simp add: groups_B members_B_prod)
  have mf: "members scenario_B [''Machine''] ''Performance'' (groups_of scenario_B [''Machine''] ! 0)
             = [Some (1 / 2), Some (7 / 10)]"
    unfolding members_def labels_B groups_B by (simp add: group_values_def floats_def scenario_B_def)
  have g: "wf_frame scenario_B \<and> aggregable scenario_B [''Machine''] \<and>
           (0::nat) < length (groups_of scenario_B [''Machine'']) \<and>
           (\<forall>x \<in> set (members scenario_B [''Machine''] ''Production per unit''
                          (groups_of scenario_B [''Machine''] ! 0)). x = Some 0)"
    unfolding mp by (simp add: wf_scenario_B aggregable_B groups_B)
  have z: "floats scenario_Z ''Production per unit'' = [Some 0, Some 0]"
    by (simp add: floats_def scenario_Z_def)
  have kz: "main_kpis scenario_Z = Inr \<lparr>total_prod = 0, total_good = 0, total_reject = 0, total_downtime = 60,
          overall_quality = None, total_planned_hours = 48,
          overall_availability = Some 0, overall_performance = None, overall_oee = None\<rparr> \<and>
          (\<forall>x \<in> set (floats scenario_Z ''Production per unit''). x = Some 0)"
    unfolding z by (simp add: kpis_Z)
  note t = zero_weight_performance[of scenario_B "[''Machine'']" 0 scenario_Z
             "\<lparr>total_prod = 0, total_good = 0, total_reject = 0, total_downtime = 60,
               overall_quality = None, total_planned_hours = 48,
               overall_availability = Some 0, overall_performance = None, overall_oee = None\<rparr>"]
  from t[THEN conjunct1] g
  have 1: "\<exists>out p. aggregate_oee scenario_B [''Machine''] = Inr out \<and>
      getitem out ''Performance'' = Inr (FloatCol p) \<and> p ! 0 = Some (3 / 5)"
    unfolding mf by (auto simp: nanmean_def)
  from t[THEN conjunct2] kz
  have 2: "\<exists>k. main_kpis scenario_Z = Inr k \<and> total_prod k = 0 \<and> overall_performance k = None"
    by auto
  from g mp mf 1 z 2 show ?thesis by blast
qed

lemma groupby_label_array:
  assumes "length keys = nrows df" "\<not> list_all (\<lambda>k. k \<in> set (names df)) keys"
  shows "groupby df keys = Inr [(None, TextCol (map Some keys))]"
  using assms by (simp add: groupby_def)

lemma not_float_text:
  "c \<in> set (names df) \<Longrightarrow> \<not> is_float df c \<Longrightarrow> \<exists>ss. getitem df c = Inr (TextCol ss)"
proof -
  assume c: "c \<in> set (names df)" and nf: "\<not> is_float df c"
  from c obtain col where g: "getitem df c = Inr col" using names_getitem by blast
  then have "map_of (columns df) c = Some col"
    by (auto simp: getitem_def split: option.splits)
  then show ?thesis using nf g by (cases col) (auto simp: is_float_def)
qed

lemma aggregate_cols_text:
  "list_all (\<lambda>(out, src, f). src \<in> set (names df)) specs \<Longrightarrow>
   \<not> list_all (\<lambda>(out, src, f). is_float df src) specs \<Longrightarrow>
   aggregate_cols df ks gs specs = Inl TypeError"
proof (induction specs)
  case Nil
  then show ?case by simp
next
  case (Cons a specs)
  obtain out src f where a: "a = (out, src, f)" by (cases a)
  have src: "src \<in> set (names df)" using Cons.prems(1) a by simp
  show ?case
  proof (cases "is_float df src")
    case False
    then obtain ss where "getitem df src = Inr (TextCol ss)" using src not_float_text by blast
    then show ?thesis using a by simp
  next
    case True
    then have g: "getitem df src = Inr (FloatCol (floats df src))" by (rule is_floatD)
    have "aggregate_cols df ks gs specs = Inl TypeError"
      using Cons.IH Cons.prems True a by simp
    then show ?thesis using a g by (cases f) simp_all
  qed
qed

lemma aggregate_oee_label_array:
  assumes q: "length gc = nrows df" "\<not> list_all (\<lambda>k. k \<in> set (names df)) gc"
      and ni: "\<not> list_all (\<lambda>k. k = ''index'') gc"
  shows "aggregate_oee df gc = Inl KeyError \<or>
         (aggregate_oee df gc = Inl TypeError \<and>
          \<not> list_all (\<lambda>c. c \<notin> set (names df) \<or> is_float df c)
                 [''Production per unit'', ''Good units'', ''Reject per unit'', ''downtime'',
                  ''Planned hours'', ''Performance''])"
proof -
  note gb = groupby_label_array[OF q]
  let ?specs = "[(''Production_units'', ''Production per unit'', Sum),
                 (''Good_units'', ''Good units'', Sum),
                 (''Reject_units'', ''Reject per unit'', Sum),
                 (''Downtime'', ''downtime'', Sum),
                 (''Planned_hours'', ''Planned hours'', Sum)]"
  show ?thesis
  proof (cases "list_all (\<lambda>(out, src, f). src \<in> set (names df)) ?specs")
    case False
    then have "groupby_agg df gc ?specs = Inl KeyError"
      unfolding groupby_agg_def gb by (simp add: Let_def)
    then have "aggregate_oee df gc = Inl KeyError" by (simp add: aggregate_oee_def)
    then show ?thesis by simp
  next
    case True
    note present = True
    show ?thesis
    proof (cases "list_all (\<lambda>(out, src, f). is_float df src) ?specs")
    case False
    have "groupby_agg df gc ?specs = Inl TypeError"
      unfolding groupby_agg_def gb using present aggregate_cols_text[OF present False]
      by (simp add: Let_def del: aggregate_cols.simps)
    then have "aggregate_oee df gc = Inl TypeError" by (simp add: aggregate_oee_def)
    moreover have "\<not> list_all (\<lambda>c. c \<notin> set (names df) \<or> is_float df c)
                 [''Production per unit'', ''Good units'', ''Reject per unit'', ''downtime'',
                  ''Planned hours'', ''Performance'']"
      using present False by auto
    ultimately show ?thesis by simp
    next
    case True
    note fl = True
    define ks where "ks = row_labels (nrows df) [TextCol (map Some gc)]"
    define gs where "gs = group_labels ks"
    define lc where "lc = level_col (TextCol (map Some gc)) gs 0"
    define P where "P = map (\<lambda>g. Some (nansum (group_values ks (floats df ''Production per unit'') g))) gs"
    define G where "G = map (\<lambda>g. Some (nansum (group_values ks (floats df ''Good units'') g))) gs"
    define R where "R = map (\<lambda>g. Some (nansum (group_values ks (floats df ''Reject per unit'') g))) gs"
    define D where "D = map (\<lambda>g. Some (nansum (group_values ks (floats df ''downtime'') g))) gs"
    define H where "H = map (\<lambda>g. Some (nansum (group_values ks (floats df ''Planned hours'') g))) gs"
    have s1: "groupby_agg df gc ?specs =
        Inr \<lparr>levels = [(None, lc)],
             data = \<lparr>nrows = length gs, columns =
                  [(''Production_units'', FloatCol P), (''Good_units'', FloatCol G),
                   (''Reject_units'', FloatCol R), (''Downtime'', FloatCol D),
                   (''Planned_hours'', FloatCol H)]\<rparr>\<rparr>"
    proof -
      have ac: "aggregate_cols df ks gs ?specs =
                  Inr [(''Production_units'', FloatCol P), (''Good_units'', FloatCol G),
                       (''Reject_units'', FloatCol R), (''Downtime'', FloatCol D),
                       (''Planned_hours'', FloatCol H)]"
        unfolding aggregate_cols_ok[OF fl] by (simp add: P_def G_def R_def D_def H_def)
      show ?thesis
        unfolding groupby_agg_def gb using present
        by (simp add: Let_def ks_def[symmetric] gs_def[symmetric] ac lc_def
              del: aggregate_cols.simps)
    qed
    have s2: "reset_index \<lparr>levels = [(None, lc)],
             data = \<lparr>nrows = length gs, columns =
                  [(''Production_units'', FloatCol P), (''Good_units'', FloatCol G),
                   (''Reject_units'', FloatCol R), (''Downtime'', FloatCol D),
                   (''Planned_hours'', FloatCol H)]\<rparr>\<rparr>
        = Inr \<lparr>nrows = length gs, columns =
                  [(''index'', lc),
                   (''Production_units'', FloatCol P), (''Good_units'', FloatCol G),
                   (''Reject_units'', FloatCol R), (''Downtime'', FloatCol D),
                   (''Planned_hours'', FloatCol H)]\<rparr>"
      by (simp add: reset_index_def)
    let ?agg3 = "\<lparr>nrows = length gs, columns =
                  [(''index'', lc),
                   (''Production_units'', FloatCol P), (''Good_units'', FloatCol G),
                   (''Reject_units'', FloatCol R), (''Downtime'', FloatCol D),
                   (''Planned_hours'', FloatCol H),
                   (''Quality'', FloatCol (quality_of G P)),
                   (''Availability'', FloatCol (availability_of D H))]\<rparr>"
    have av: "map (fclip 0 1 \<circ> (\<lambda>(x, y). if x then y else None))
                (zip (map gt0 H) (map (fsub (Some 1) \<circ> (\<lambda>(x, y). fdiv x y)) (zip D H)))
            = availability_of D H"
      by (simp add: availability_of_def)
    have s3: "aggregate_oee df gc =
        and_then (groupby_agg df gc [(''Performance'', ''Performance'', Mean)]) (\<lambda>grouped_p.
        and_then (reset_index grouped_p) (\<lambda>tmp.
        and_then (merge_left ?agg3 tmp gc) (\<lambda>agg4.
        and_then (getitem agg4 ''Availability'') (\<lambda>a1.
        and_then (getitem agg4 ''Performance'') (\<lambda>p.
        and_then (col_mul a1 p) (\<lambda>ap.
        and_then (getitem agg4 ''Quality'') (\<lambda>q.
        and_then (col_mul ap q) (\<lambda>oee.
        Inr (setitem agg4 ''OEE'' oee)))))))))"
      unfolding aggregate_oee_def s1
      apply (simp only: and_then_Inr s2)
      apply (simp add: av Let_def getitem_Cons getitem_Nil setitem_def
                       quality_of_def[symmetric] availability_of_def[symmetric])
      done
    show ?thesis
    proof (cases "''Performance'' \<in> set (names df)")
      case False
      then have "groupby_agg df gc [(''Performance'', ''Performance'', Mean)] = Inl KeyError"
        unfolding groupby_agg_def gb by (simp add: Let_def)
      then have "aggregate_oee df gc = Inl KeyError" unfolding s3 by simp
      then show ?thesis by simp
    next
      case True
      note pp = True
      show ?thesis
      proof (cases "is_float df ''Performance''")
      case False
      have "aggregate_cols df ks gs [(''Performance'', ''Performance'', Mean)] = Inl TypeError"
        by (rule aggregate_cols_text) (use pp False in simp_all)
      then have "groupby_agg df gc [(''Performance'', ''Performance'', Mean)] = Inl TypeError"
        unfolding groupby_agg_def gb using pp
        by (simp add: Let_def ks_def[symmetric] gs_def[symmetric] del: aggregate_cols.simps)
      then have "aggregate_oee df gc = Inl TypeError" unfolding s3 by simp
      moreover have "\<not> list_all (\<lambda>c. c \<notin> set (names df) \<or> is_float df c)
                 [''Production per unit'', ''Good units'', ''Reject per unit'', ''downtime'',
                  ''Planned hours'', ''Performance'']"
        using pp False by simp
      ultimately show ?thesis by simp
      next
      case True
      then have flp: "list_all (\<lambda>(out, src, f). is_float df src) [(''Performance'', ''Performance'', Mean)]"
        by simp
      define M where "M = map (\<lambda>g. nanmean (group_values ks (floats df ''Performance'') g)) gs"
      have p1: "groupby_agg df gc [(''Performance'', ''Performance'', Mean)] =
          Inr \<lparr>levels = [(None, lc)],
               data = \<lparr>nrows = length gs, columns = [(''Performance'', FloatCol M)]\<rparr>\<rparr>"
      proof -
        have ac: "aggregate_cols df ks gs [(''Performance'', ''Performance'', Mean)] =
                    Inr [(''Performance'', FloatCol M)]"
          unfolding aggregate_cols_ok[OF flp] by (simp add: M_def)
        show ?thesis
          unfolding groupby_agg_def gb using pp
          by (simp add: Let_def ks_def[symmetric] gs_def[symmetric] ac lc_def
                del: aggregate_cols.simps)
      qed
      have p2: "reset_index \<lparr>levels = [(None, lc)],
               data = \<lparr>nrows = length gs, columns = [(''Performance'', FloatCol M)]\<rparr>\<rparr>
          = Inr \<lparr>nrows = length gs, columns = [(''index'', lc), (''Performance'', FloatCol M)]\<rparr>"
        by (simp add: reset_index_def)
      have "\<And>k. (k \<in> set (names \<lparr>nrows = length gs, columns = [(''index'', lc), (''Performance'', FloatCol M)]\<rparr>)
                  \<and> k \<in> set (names ?agg3)) = (k = ''index'')"
        by (auto simp: names_def)
      then have chk: "\<not> list_all (\<lambda>k. k \<in> set (names \<lparr>nrows = length gs, columns = [(''index'', lc), (''Performance'', FloatCol M)]\<rparr>)
                  \<and> k \<in> set (names ?agg3)) gc"
        using ni by simp
      have "merge_left ?agg3 \<lparr>nrows = length gs, columns = [(''index'', lc), (''Performance'', FloatCol M)]\<rparr> gc
              = Inl KeyError"
        unfolding merge_left_def using chk by (simp only: not_False_eq_True if_True)
      then have "aggregate_oee df gc = Inl KeyError"
        unfolding s3 p1 by (simp only: and_then_Inr and_then_Inl p2)
      then show ?thesis by simp
      qed
    qed
    qed
  qed
qed


lemma aggregate_one_index:
  "aggregate_oee scenario_one [''index''] =
     Inr \<lparr>nrows = 1, columns =
        [(''index'', TextCol [Some ''index'']),
         (''Production_units'', FloatCol [Some 100]),
         (''Good_units'', FloatCol [Some 90]),
         (''Reject_units'', FloatCol [Some 10]),
         (''Downtime'', FloatCol [Some 2]),
         (''Planned_hours'', FloatCol [Some 24]),
         (''Quality'', FloatCol [Some (9 / 10)]),
         (''Availability'', FloatCol [Some (11 / 12)]),
         (''Performance'', FloatCol [Some (9 / 10)]),
         (''OEE'', FloatCol [Some (297 / 400)])]\<rparr>"
proof -
  have gb: "groupby scenario_one [''index''] = Inr [(None, TextCol [Some ''index''])]"
    by (simp add: groupby_def names_def scenario_one_def)
  have ks: "row_labels (nrows scenario_one) [TextCol [Some ''index'']] = [Some [S ''index'']]"
    by (simp add: row_labels_def scenario_one_def)
  have gs: "group_labels [Some [S ''index'']] = [[S ''index'']]"
    by (simp add: group_labels_def sort_labels_def)
  have s1: "groupby_agg scenario_one [''index'']
              [(''Production_units'', ''Production per unit'', Sum),
               (''Good_units'', ''Good units'', Sum),
               (''Reject_units'', ''Reject per unit'', Sum),
               (''Downtime'', ''downtime'', Sum),
               (''Planned_hours'', ''Planned hours'', Sum)]
        = Inr \<lparr>levels = [(None, TextCol [Some ''index''])],
               data = \<lparr>nrows = 1, columns =
                  [(''Production_units'', FloatCol [Some 100]), (''Good_units'', FloatCol [Some 90]),
                   (''Reject_units'', FloatCol [Some 10]), (''Downtime'', FloatCol [Some 2]),
                   (''Planned_hours'', FloatCol [Some 24])]\<rparr>\<rparr>"
    unfolding groupby_agg_def gb
    apply (simp add: Let_def ks gs del: aggregate_cols.simps)
    apply (simp add: names_def getitem_def group_values_def nansum_def cell_at_def scenario_one_def)
    done
  have s3: "groupby_agg scenario_one [''index''] [(''Performance'', ''Performance'', Mean)]
        = Inr \<lparr>levels = [(None, TextCol [Some ''index''])],
               data = \<lparr>nrows = 1, columns = [(''Performance'', FloatCol [Some (9 / 10)])]\<rparr>\<rparr>"
    unfolding groupby_agg_def gb
    apply (simp add: Let_def ks gs del: aggregate_cols.simps)
    apply (simp add: names_def getitem_def group_values_def nanmean_def cell_at_def scenario_one_def)
    done
  show ?thesis
    unfolding aggregate_oee_def s1 s3
    apply (simp add: reset_index_def Let_def getitem_Cons getitem_Nil setitem_def)
    apply (simp add: merge_left_def names_def on_cells_def the_col_def join_rows_def matches_def
                     pick_def Let_def getitem_Cons getitem_Nil setitem_def enumerate_eq_zip)
    done
qed

text \<open>
  Claim C4, as amended. When a group key is not a column of the frame, \<^verbatim>\<open>aggregate_oee\<close>
  returns no frame: it fails with the \<open>KeyError\<close> of pandas, or with \<open>TypeError\<close> when
  the list of keys is exactly as long as the frame and a column to aggregate holds text.
  The one exception is a list of keys exactly as long as the frame in which every key
  is \<^verbatim>\<open>index\<close>. (pandas reads a key list exactly as long as the frame, with an entry that
  is not a column, as an array of row labels and calls the level \<^verbatim>\<open>index\<close>; see
  \<open>groupby\<close>. The failure then comes from the merge on the keys.)
\<close>

theorem aggregate_oee_unknown_key:
  assumes "\<not> list_all (\<lambda>k. k \<in> set (names df)) group_cols"
      and "\<not> (length group_cols = nrows df \<and> list_all (\<lambda>k. k = ''index'') group_cols)"
  shows "aggregate_oee df group_cols = Inl KeyError \<or>
         (aggregate_oee df group_cols = Inl TypeError \<and> length group_cols = nrows df \<and>
          \<not> list_all (\<lambda>c. c \<notin> set (names df) \<or> is_float df c)
                 [''Production per unit'', ''Good units'', ''Reject per unit'', ''downtime'',
                  ''Planned hours'', ''Performance''])"
proof (cases "length group_cols = nrows df")
  case True
  then have "\<not> list_all (\<lambda>k. k = ''index'') group_cols" using assms(2) by simp
  from aggregate_oee_label_array[OF True assms(1) this] show ?thesis using True by blast
next
  case False
  then show ?thesis using aggregate_oee_missing[OF assms(1)] by simp
qed

theorem aggregate_oee_unknown_key_witness:
  "\<not> list_all (\<lambda>k. k \<in> set (names scenario_one)) [''Shift''] \<and>
   \<not> (length [''Shift''] = nrows scenario_one \<and> list_all (\<lambda>k. k = ''index'') [''Shift'']) \<and>
   length [''Shift''] = nrows scenario_one \<and>
   list_all (\<lambda>c. c \<notin> set (names scenario_one) \<or> is_float scenario_one c)
                 [''Production per unit'', ''Good units'', ''Reject per unit'', ''downtime'',
                  ''Planned hours'', ''Performance''] \<and>
   aggregate_oee scenario_one [''Shift''] = Inl KeyError"
proof -
  have a: "\<not> list_all (\<lambda>k. k \<in> set (names scenario_one)) [''Shift'']"
    by (simp add: names_def scenario_one_def)
  have b: "\<not> (length [''Shift''] = nrows scenario_one \<and> list_all (\<lambda>k. k = ''index'') [''Shift''])"
    by simp
  have n: "length [''Shift''] = nrows scenario_one" by (simp add: scenario_one_def)
  have t: "list_all (\<lambda>c. c \<notin> set (names scenario_one) \<or> is_float scenario_one c)
                 [''Production per unit'', ''Good units'', ''Reject per unit'', ''downtime'',
                  ''Planned hours'', ''Performance'']"
    by (simp add: is_float_def scenario_one_def)
  from aggregate_oee_unknown_key[OF a b] t
  have "aggregate_oee scenario_one [''Shift''] = Inl KeyError" by blast
  with a b n t show ?thesis by blast
qed

text \<open>
  Claim C4, as stated, fails in three ways. The error is not a distinguished
  \<^verbatim>\<open>InvalidGroupKey\<close>, which the program does not define: grouping Scenario A by the
  unknown key \<^verbatim>\<open>Shift\<close> raises the \<open>KeyError\<close> of pandas, which is also what grouping by
  the valid key \<^verbatim>\<open>Machine\<close> raises on a frame that lacks the column \<^verbatim>\<open>Planned hours\<close>.
  Grouping the frame of one record by \<^verbatim>\<open>index\<close>, which is not one of its columns, raises
  nothing and returns a frame of one row. Grouping the frame of one record with text in
  \<^verbatim>\<open>Production per unit\<close> by the unknown key \<^verbatim>\<open>Shift\<close> raises \<open>TypeError\<close>.
\<close>

theorem unknown_key_outcomes:
  "aggregate_oee scenario_A [''Shift''] = Inl KeyError \<and>
   aggregate_oee scenario_A_loaded [''Machine''] = Inl KeyError \<and>
   ''index'' \<notin> set (names scenario_one) \<and>
   aggregate_oee scenario_one [''index''] =
     Inr \<lparr>nrows = 1, columns =
        [(''index'', TextCol [Some ''index'']),
         (''Production_units'', FloatCol [Some 100]),
         (''Good_units'', FloatCol [Some 90]),
         (''Reject_units'', FloatCol [Some 10]),
         (''Downtime'', FloatCol [Some 2]),
         (''Planned_hours'', FloatCol [Some 24]),
         (''Quality'', FloatCol [Some (9 / 10)]),
         (''Availability'', FloatCol [Some (11 / 12)]),
         (''Performance'', FloatCol [Some (9 / 10)]),
         (''OEE'', FloatCol [Some (297 / 400)])]\<rparr> \<and>
   ''Shift'' \<notin> set (names scenario_one_text) \<and>
   aggregate_oee scenario_one_text [''Shift''] = Inl TypeError"
proof -
  have 1: "aggregate_oee scenario_A [''Shift''] = Inl KeyError"
    by (rule aggregate_oee_missing) (simp_all add: names_def scenario_A_def)
  have 2: "aggregate_oee scenario_A_loaded [''Machine''] = Inl KeyError"
    by (simp add: aggregate_oee_def groupby_agg_def groupby_def names_def scenario_A_loaded_def)
  have 3: "''index'' \<notin> set (names scenario_one)" "''Shift'' \<notin> set (names scenario_one_text)"
    by (simp_all add: names_def scenario_one_def scenario_one_text_def)
  note 4 = aggregate_one_index
  have 5: "aggregate_oee scenario_one_text [''Shift''] = Inl TypeError"
    by (simp add: aggregate_oee_def groupby_agg_def groupby_def names_def getitem_def
                  scenario_one_text_def Let_def)
  from 1 2 3 4 5 show ?thesis by blast
qed

lemma aggregate_performance_plain_mean:
  assumes "aggregable df group_cols"
  shows "\<exists>out. aggregate_oee df group_cols = Inr out \<and>
           getitem out ''Performance'' = Inr (FloatCol (group_means df group_cols ''Performance''))"
  using aggregate_oee_ok[OF assms] getitem_grouped(7)[OF assms] by simp

lemma aggregate_A:
  "aggregate_oee scenario_A [''Machine''] =
     Inr \<lparr>nrows = 1, columns =
        [(''Machine'', TextCol [Some ''M1'']),
         (''Production_units'', FloatCol [Some 150]),
         (''Good_units'', FloatCol [Some 140]),
         (''Reject_units'', FloatCol [Some 10]),
         (''Downtime'', FloatCol [Some 3]),
         (''Planned_hours'', FloatCol [Some 48]),
         (''Quality'', FloatCol [Some (14 / 15)]),
         (''Availability'', FloatCol [Some (15 / 16)]),
         (''Performance'', FloatCol [Some (17 / 20)]),
         (''OEE'', FloatCol [Some (119 / 160)])]\<rparr>"
  unfolding aggregate_oee_ok[OF aggregable_A] grouped_A ..

lemma kpis_A:
  "main_kpis scenario_A =
     Inr \<lparr>total_prod = 150, total_good = 140, total_reject = 10, total_downtime = 3,
          overall_quality = Some (14 / 15), total_planned_hours = 48,
          overall_availability = Some (15 / 16), overall_performance = Some (13 / 15),
          overall_oee = Some (91 / 120)\<rparr>"
  by (simp add: main_kpis_def getitem_def scenario_A_def nansum_def np_sum_def Let_def)

text \<open>
  Claim C1 fails on the code. On Scenario A the row of machine \<^verbatim>\<open>M1\<close> has the
  \<^verbatim>\<open>Performance\<close> 17/20, the plain mean of 9/10 and 8/10, while the mean weighted by the
  productions 100 and 50 is 13/15. (Lemma \<open>aggregate_performance_plain_mean\<close> shows
  for every frame that the column holds the plain mean of each group.)
\<close>

theorem group_performance_scenario_A:
  "(\<exists>out. aggregate_oee scenario_A [''Machine''] = Inr out \<and> nrows out = 1 \<and>
      getitem out ''Performance'' = Inr (FloatCol [Some (17 / 20)])) \<and>
   floats scenario_A ''Performance'' = [Some (9 / 10), Some (8 / 10)] \<and>
   floats scenario_A ''Production per unit'' = [Some 100, Some 50] \<and>
   weighted_mean [Some (9 / 10), Some (8 / 10)] [Some 100, Some 50] = Some (13 / 15) \<and>
   nanmean [Some (9 / 10), Some (8 / 10)] = Some (17 / 20)"
  unfolding aggregate_A
  by (simp add: getitem_def floats_def scenario_A_def weighted_mean_def np_sum_def nanmean_def)

text \<open>
  Claim C2 fails on the code, for the same reason. On Scenario A, where \<^verbatim>\<open>Machine\<close> is a
  constant key that covers all records, the KPI block of \<^verbatim>\<open>main\<close> weights the performance
  by production (13/15) and reports the OEE 91/120; \<^verbatim>\<open>aggregate_oee\<close> reports the OEE
  119/160 in its only row.
\<close>

theorem overall_oee_differs_scenario_A:
  "(\<exists>k. main_kpis scenario_A = Inr k \<and> overall_performance k = Some (13 / 15) \<and>
      overall_oee k = Some (91 / 120)) \<and>
   (\<exists>out. aggregate_oee scenario_A [''Machine''] = Inr out \<and> nrows out = 1 \<and>
      getitem out ''Machine'' = Inr (TextCol [Some ''M1'']) \<and>
      getitem out ''Performance'' = Inr (FloatCol [Some (17 / 20)]) \<and>
      getitem out ''OEE'' = Inr (FloatCol [Some (119 / 160)])) \<and>
   (91 / 120 :: real) \<noteq> 119 / 160"
  unfolding aggregate_A kpis_A by (simp add: getitem_def)

end
